theory Spec2Isabelle
  imports Complex_Main "HOL-Library.Word" "HOL-Library.Log_Nat"
begin

unbundle bit_operations_syntax

text \<open>
  Quadinator (\<^verbatim>\<open>dllmain.cpp\<close>) hooks three entry points of the Varjo runtime:
  \<^verbatim>\<open>varjo_GetTextureSize\<close>, \<^verbatim>\<open>varjo_GetViewDescription\<close> and \<^verbatim>\<open>varjo_EndFrameWithLayers\<close>.
  This theory embeds \<^verbatim>\<open>AlignTo\<close>, \<^verbatim>\<open>GetRenderingGaze\<close>, \<^verbatim>\<open>GetFovTangents\<close>,
  \<^verbatim>\<open>hooked_GetTextureSize\<close> and \<^verbatim>\<open>hooked_EndFrameWithLayers\<close> as functions that return either
  an error or the value that the C++ code computes, and proves what they do.
\<close>

section \<open>Machine integers\<close>

text \<open>
  \<^verbatim>\<open>int32_t\<close> and \<^verbatim>\<open>uint32_t\<close> are both \<open>32 word\<close>: \<open>sint\<close> reads a word as the
  signed value, \<open>uint\<close> as the unsigned one, and the conversions between the two C
  types keep the bits.
\<close>

type_synonym int32_t = "32 word"
type_synonym uint32_t = "32 word"
type_synonym int64_t = "64 word"

text \<open>
  What the program can do besides returning: an access outside an array, the integer
  remainder by zero, a conversion from \<^verbatim>\<open>double\<close> to \<^verbatim>\<open>int32_t\<close> whose truncated
  value does not fit (undefined in C++), a signed addition that overflows (undefined
  in C++) and \<^verbatim>\<open>std::vector::reserve\<close> with a size above \<^verbatim>\<open>max_size()\<close>, which throws.
\<close>

datatype error = OutOfBounds | DivideByZero | UndefinedConversion | SignedOverflow | LengthError

definition and_then :: "error + 'a \<Rightarrow> ('a \<Rightarrow> error + 'b) \<Rightarrow> error + 'b" where
  "and_then r f = (case r of Inl e \<Rightarrow> Inl e | Inr v \<Rightarrow> f v)"

text \<open>
  \<^verbatim>\<open>template <uint32_t alignment> inline constexpr uint32_t AlignTo(uint32_t n) {
      static_assert((alignment & (alignment - 1)) == 0); // must be power-of-two
      return (n + alignment - 1) & ~(alignment - 1); }\<close>
  The template argument is the first argument; the arithmetic is that of \<^verbatim>\<open>uint32_t\<close>
  and wraps modulo \<open>2 ^ 32\<close>.
\<close>

definition AlignTo :: "uint32_t \<Rightarrow> uint32_t \<Rightarrow> uint32_t" where
  "AlignTo alignment n = (n + alignment - 1) AND NOT (alignment - 1)"

text \<open>Signed \<^verbatim>\<open>a + b\<close> on \<^verbatim>\<open>int32_t\<close>: defined only when the sum fits.\<close>

definition add_int32 :: "int32_t \<Rightarrow> int32_t \<Rightarrow> error + int32_t" where
  "add_int32 a b =
     (if - (2 ^ 31) \<le> sint a + sint b \<and> sint a + sint b < 2 ^ 31 then Inr (a + b)
      else Inl SignedOverflow)"

text \<open>\<^verbatim>\<open>a % b\<close> on \<^verbatim>\<open>int\<close>: the quotient truncates towards zero; \<open>b = 0\<close> traps.\<close>

definition c_rem :: "int \<Rightarrow> int \<Rightarrow> error + int" where
  "c_rem a b =
     (if b = 0 then Inl DivideByZero
      else Inr (a - b * (sgn a * sgn b * (\<bar>a\<bar> div \<bar>b\<bar>))))"

section \<open>Doubles\<close>

text \<open>
  A \<^verbatim>\<open>double\<close> is an IEEE 754 binary64 value: a finite value, an infinity or a NaN.
  A finite value is kept as the rational number it is. The sign of a zero is not
  kept: in this program it could only decide the sign of an infinity produced by a
  division by zero, and both infinities end in the same undefined conversion to
  \<^verbatim>\<open>int32_t\<close>.
  Every arithmetic operation computes the exact result and rounds it to the nearest
  binary64 value, ties to even (\<open>round_double\<close>): 53 significant bits, least exponent
  \<open>2 ^ - 1074\<close> (subnormal numbers included), overflow to an infinity from \<open>2 ^ 1024\<close>.
  The theorems hold for every runtime, also one that answers with a rational that
  is no binary64 value; the scenarios only use binary64 values.
\<close>

datatype double = Finite rat | PInf | NInf | NaN

text \<open>\<open>expo x\<close> is the exponent of the leading bit of \<open>x \<noteq> 0\<close>: \<open>2 ^ expo x \<le> \<bar>x\<bar> < 2 ^ (expo x + 1)\<close>.\<close>

definition expo :: "rat \<Rightarrow> int" where
  "expo x = (if 1 \<le> \<bar>x\<bar> then bitlen \<lfloor>\<bar>x\<bar>\<rfloor> - 1 else - bitlen (\<lceil>1 / \<bar>x\<bar>\<rceil> - 1))"

definition round_half_even :: "rat \<Rightarrow> int" where
  "round_half_even q = (let f = \<lfloor>q\<rfloor>; d = q - of_int f in
     if d < 1 / 2 then f else if 1 / 2 < d then f + 1 else if even f then f else f + 1)"

definition round_double :: "rat \<Rightarrow> double" where
  "round_double x = (if x = 0 then Finite 0 else
     let u = max (expo x - 52) (- 1074);
         r = of_int (round_half_even (x / 2 powi u)) * 2 powi u
     in if 2 ^ 1024 \<le> \<bar>r\<bar> then (if 0 < x then PInf else NInf) else Finite r)"

fun dneg :: "double \<Rightarrow> double" where
  "dneg (Finite a) = Finite (- a)"
| "dneg PInf = NInf"
| "dneg NInf = PInf"
| "dneg NaN = NaN"

fun dadd :: "double \<Rightarrow> double \<Rightarrow> double" where
  "dadd (Finite a) (Finite b) = round_double (a + b)"
| "dadd NaN _ = NaN"
| "dadd _ NaN = NaN"
| "dadd PInf NInf = NaN"
| "dadd NInf PInf = NaN"
| "dadd PInf _ = PInf"
| "dadd NInf _ = NInf"
| "dadd _ PInf = PInf"
| "dadd _ NInf = NInf"

definition dsub :: "double \<Rightarrow> double \<Rightarrow> double" where
  "dsub a b = dadd a (dneg b)"

text \<open>The sign of a double that is not a NaN, as \<open>- 1\<close>, \<open>0\<close> or \<open>1\<close>.\<close>

fun dsgn :: "double \<Rightarrow> int" where
  "dsgn (Finite a) = (if a < 0 then - 1 else if a = 0 then 0 else 1)"
| "dsgn PInf = 1"
| "dsgn NInf = - 1"
| "dsgn NaN = 0"

definition inf_of_sign :: "int \<Rightarrow> double" where
  "inf_of_sign s = (if s < 0 then NInf else if s = 0 then NaN else PInf)"

fun dmul :: "double \<Rightarrow> double \<Rightarrow> double" where
  "dmul (Finite a) (Finite b) = round_double (a * b)"
| "dmul NaN _ = NaN"
| "dmul _ NaN = NaN"
| "dmul a b = inf_of_sign (dsgn a * dsgn b)"

fun ddiv :: "double \<Rightarrow> double \<Rightarrow> double" where
  "ddiv (Finite a) (Finite b) =
     (if b = 0 then inf_of_sign (dsgn (Finite a)) else round_double (a / b))"
| "ddiv NaN _ = NaN"
| "ddiv _ NaN = NaN"
| "ddiv (Finite a) _ = Finite 0"
| "ddiv a (Finite b) = inf_of_sign (dsgn a * (if b < 0 then - 1 else 1))"
| "ddiv _ _ = NaN"

text \<open>\<^verbatim>\<open>std::abs\<close> on a double.\<close>

fun dabs :: "double \<Rightarrow> double" where
  "dabs (Finite a) = Finite \<bar>a\<bar>"
| "dabs PInf = PInf"
| "dabs NInf = PInf"
| "dabs NaN = NaN"

text \<open>The implicit conversion of an \<^verbatim>\<open>int32_t\<close> operand to \<^verbatim>\<open>double\<close>: exact.\<close>

definition double_of_int32 :: "int32_t \<Rightarrow> double" where
  "double_of_int32 w = Finite (of_int (sint w))"

text \<open>
  \<^verbatim>\<open>static_cast<int32_t>(d)\<close>: the fractional part is discarded (truncation towards
  zero); undefined when the truncated value is not an \<^verbatim>\<open>int32_t\<close>, and for an infinity
  or a NaN.
\<close>

definition trunc :: "rat \<Rightarrow> int" where
  "trunc a = (if 0 \<le> a then \<lfloor>a\<rfloor> else \<lceil>a\<rceil>)"

fun int32_of_double :: "double \<Rightarrow> error + int32_t" where
  "int32_of_double (Finite a) =
     (if - (2 ^ 31) \<le> trunc a \<and> trunc a < 2 ^ 31 then Inr (word_of_int (trunc a))
      else Inl UndefinedConversion)"
| "int32_of_double _ = Inl UndefinedConversion"

section \<open>The Varjo structures\<close>

text \<open>
  The source includes \<^verbatim>\<open>Varjo.h\<close>, \<^verbatim>\<open>Varjo_layers.h\<close> and \<^verbatim>\<open>Varjo_math.h\<close> of the Varjo
  SDK, which declare the structures, the constants and the entry points below. Each
  record has the members that \<^verbatim>\<open>dllmain.cpp\<close> names. Pointers to opaque objects of the
  runtime (a session, a swap chain) are addresses.
\<close>

type_synonym varjo_Session = nat
type_synonym varjo_SwapChain = nat

text \<open>
  Modelled from the spec: \<^verbatim>\<open>struct varjo_Matrix\<close> (the projection of a view, an array
  \<^verbatim>\<open>double value[16]\<close>), which the program only passes to and takes from the runtime.
\<close>

type_synonym varjo_Matrix = "double list"

text \<open>
  Modelled from the spec: \<^verbatim>\<open>struct varjo_FovTangents\<close>, the four signed tangents of a
  view (\<^verbatim>\<open>top\<close> is \<open>top_tan\<close> here).
\<close>

record varjo_FovTangents =
  top_tan :: double
  bottom :: double
  left :: double
  right :: double

text \<open>
  Modelled from the spec: \<^verbatim>\<open>struct varjo_AlignedView\<close>, the tangents that the runtime
  reads back from a projection matrix; the code negates \<^verbatim>\<open>projectionLeft\<close> and
  \<^verbatim>\<open>projectionBottom\<close> when it logs them as angles, and takes the tangents of
  \<^verbatim>\<open>varjo_FovTangents\<close> as they are.
\<close>

record varjo_AlignedView =
  projectionTop :: double
  projectionBottom :: double
  projectionLeft :: double
  projectionRight :: double

text \<open>
  Modelled from the spec: \<^verbatim>\<open>struct varjo_Ray\<close> and \<^verbatim>\<open>struct varjo_Gaze\<close>, with the members
  that \<^verbatim>\<open>GetRenderingGaze\<close> names; \<^verbatim>\<open>forward\<close> is an array of three doubles.
\<close>

record varjo_Ray =
  forward :: "double list"

record varjo_Gaze =
  leftEye :: varjo_Ray
  rightEye :: varjo_Ray
  gaze :: varjo_Ray
  stability :: double
  leftStatus :: int64_t
  rightStatus :: int64_t
  status :: int64_t
  leftPupilSize :: double
  rightPupilSize :: double

text \<open>
  Modelled from the spec: the size kinds \<^verbatim>\<open>varjo_TextureSize_Type\<close> that the source
  names.
\<close>

datatype varjo_TextureSize_Type =
  varjo_TextureSize_Type_Quad
| varjo_TextureSize_Type_Stereo
| varjo_TextureSize_Type_DynamicFoveation

text \<open>
  Modelled from the spec: \<^verbatim>\<open>struct varjo_SwapChainViewport\<close> (\<^verbatim>\<open>x\<close> and \<^verbatim>\<open>y\<close> are
  \<open>viewport_x\<close> and \<open>viewport_y\<close> here) and \<^verbatim>\<open>struct varjo_LayerMultiProjView\<close>.
\<close>

record varjo_SwapChainViewport =
  swapChain :: varjo_SwapChain
  viewport_x :: int32_t
  viewport_y :: int32_t
  width :: int32_t
  height :: int32_t
  arrayIndex :: int32_t

record varjo_LayerMultiProjView =
  projection :: varjo_Matrix
  viewport :: varjo_SwapChainViewport

text \<open>
  Modelled from the spec: \<^verbatim>\<open>struct varjo_LayerHeader\<close> and \<^verbatim>\<open>struct varjo_LayerMultiProj\<close>.
  \<open>views\<close> is the array that the \<^verbatim>\<open>views\<close> pointer points to, with the elements it
  really has; \<open>viewCount\<close> is the member of that name, which a malformed layer can set
  to another number.
\<close>

record varjo_LayerHeader =
  flags :: int64_t

record varjo_LayerMultiProj =
  header :: varjo_LayerHeader
  space :: int64_t
  viewCount :: int32_t
  views :: "varjo_LayerMultiProjView list"

text \<open>
  A submitted layer is reached through a pointer to its header. The header's
  \<^verbatim>\<open>type\<close> member is the constructor: \<open>LayerMultiProj\<close> is a layer whose type is
  \<^verbatim>\<open>varjo_LayerMultiProjType\<close>, \<open>LayerOther\<close> a layer of any other type, of which the
  program can see the header only.
\<close>

datatype varjo_Layer = LayerMultiProj varjo_LayerMultiProj | LayerOther varjo_LayerHeader

text \<open>
  Modelled from the spec: \<^verbatim>\<open>struct varjo_SubmitInfoLayers\<close>. \<open>layers\<close> is the array of
  layer pointers, each pointer shown as the layer it points to, with the elements
  it really has; \<open>layerCount\<close> is the member of that name.
\<close>

record varjo_SubmitInfoLayers =
  frameNumber :: int64_t
  layerCount :: int32_t
  layers :: "varjo_Layer list"

text \<open>
  The entry points of the Varjo runtime that the program calls (the \<^verbatim>\<open>original_\<close>
  function pointers resolved by \<^verbatim>\<open>InstallHooks\<close>, and \<^verbatim>\<open>varjo_GetProjectionMatrix\<close>),
  as functions of their arguments, and the flag bit \<^verbatim>\<open>varjo_LayerFlag_Foveated\<close> of
  \<^verbatim>\<open>Varjo_layers.h\<close>: the program is verified for every such runtime.
  \<^verbatim>\<open>original_GetTextureSize\<close> and \<^verbatim>\<open>original_GetRenderingGaze\<close> write through
  pointers: they take the pointed-to values and return the new ones.
  \<^verbatim>\<open>original_GetFoveatedFovTangents\<close> is always given zero-initialised hints, left out.
\<close>

record varjo_runtime =
  original_GetAlignedView :: "varjo_Matrix \<Rightarrow> varjo_AlignedView"
  original_GetFovTangents :: "varjo_Session \<Rightarrow> int32_t \<Rightarrow> varjo_FovTangents"
  original_GetFoveatedFovTangents ::
    "varjo_Session \<Rightarrow> int32_t \<Rightarrow> varjo_Gaze \<Rightarrow> varjo_FovTangents"
  original_GetRenderingGaze :: "varjo_Session \<Rightarrow> varjo_Gaze \<Rightarrow> bool \<times> varjo_Gaze"
  varjo_GetProjectionMatrix :: "varjo_FovTangents \<Rightarrow> varjo_Matrix"
  original_GetTextureSize ::
    "varjo_Session \<Rightarrow> varjo_TextureSize_Type \<Rightarrow> int32_t \<Rightarrow> int32_t \<times> int32_t
      \<Rightarrow> int32_t \<times> int32_t"
  varjo_LayerFlag_Foveated :: int64_t

section \<open>The program\<close>

text \<open>\<^verbatim>\<open>#define USE_FOVEATED_TANGENTS 1\<close> and \<^verbatim>\<open>#define USE_FOVEATED_GAZE 0\<close>.\<close>

definition USE_FOVEATED_TANGENTS :: bool where
  "USE_FOVEATED_TANGENTS = True"

definition USE_FOVEATED_GAZE :: bool where
  "USE_FOVEATED_GAZE = False"

subsection \<open>GetRenderingGaze and GetFovTangents\<close>

text \<open>The value of \<^verbatim>\<open>varjo_Gaze{}\<close>: every member zero.\<close>

definition zero_Ray :: varjo_Ray where
  "zero_Ray = \<lparr>forward = [Finite 0, Finite 0, Finite 0]\<rparr>"

definition zero_Gaze :: varjo_Gaze where
  "zero_Gaze = \<lparr>leftEye = zero_Ray, rightEye = zero_Ray, gaze = zero_Ray,
     stability = Finite 0, leftStatus = 0, rightStatus = 0, status = 0,
     leftPupilSize = Finite 0, rightPupilSize = Finite 0\<rparr>"

text \<open>
  \<^verbatim>\<open>varjo_Bool GetRenderingGaze(struct varjo_Session* session, struct varjo_Gaze* gaze)\<close>:
  the second argument is \<^verbatim>\<open>*gaze\<close> at the call, the result is the returned flag and
  \<^verbatim>\<open>*gaze\<close> at the return.
\<close>

definition GetRenderingGaze ::
  "varjo_runtime \<Rightarrow> varjo_Session \<Rightarrow> varjo_Gaze \<Rightarrow> bool \<times> varjo_Gaze" where
  "GetRenderingGaze rt session g =
     (if USE_FOVEATED_GAZE then original_GetRenderingGaze rt session g
      else
        let g0 = zero_Gaze;
            g1 = g0\<lparr>gaze := (gaze g0)\<lparr>forward := (forward (gaze g0))[2 := Finite 1]\<rparr>\<rparr>;
            g2 = g1\<lparr>rightEye := (rightEye g1)\<lparr>forward := (forward (rightEye g1))[2 := Finite 1]\<rparr>\<rparr>;
            g3 = g2\<lparr>leftEye := (leftEye g2)\<lparr>forward := (forward (leftEye g2))[2 := Finite 1]\<rparr>\<rparr>;
            g4 = g3\<lparr>rightStatus := 3\<rparr>;
            g5 = g4\<lparr>leftStatus := 3\<rparr>;
            g6 = g5\<lparr>stability := Finite 1\<rparr>;
            g7 = g6\<lparr>status := 2\<rparr>
        in (True, g7))"

text \<open>
  \<^verbatim>\<open>varjo_Gaze gaze{};
  if (USE_FOVEATED_TANGENTS && GetRenderingGaze(session, &gaze)) {
      varjo_FoveatedFovTangents_Hints hints{};
      return original_GetFoveatedFovTangents(session, viewIndex, &gaze, &hints);
  } else { return original_GetFovTangents(session, viewIndex); }\<close>
\<close>

definition GetFovTangents ::
  "varjo_runtime \<Rightarrow> varjo_Session \<Rightarrow> int32_t \<Rightarrow> varjo_FovTangents" where
  "GetFovTangents rt session viewIndex =
     (if USE_FOVEATED_TANGENTS \<and> fst (GetRenderingGaze rt session zero_Gaze)
      then original_GetFoveatedFovTangents rt session viewIndex
             (snd (GetRenderingGaze rt session zero_Gaze))
      else original_GetFovTangents rt session viewIndex)"

subsection \<open>hooked_GetTextureSize\<close>

text \<open>
  The pair is \<^verbatim>\<open>(*width, *height)\<close>: at the call in the argument, at the return in
  the result. The trace logging has no effect on either and is left out.
  \<^verbatim>\<open>2 + viewIndex\<close> is a signed addition (\<open>add_int32\<close>).
\<close>

definition hooked_GetTextureSize ::
  "varjo_runtime \<Rightarrow> varjo_Session \<Rightarrow> varjo_TextureSize_Type \<Rightarrow> int32_t
    \<Rightarrow> int32_t \<times> int32_t \<Rightarrow> error + int32_t \<times> int32_t" where
  "hooked_GetTextureSize rt session type viewIndex wh =
     (if type = varjo_TextureSize_Type_Stereo then
        and_then (add_int32 2 viewIndex) (\<lambda>focusIndex.
          let (w, h) = original_GetTextureSize rt session
                 (if USE_FOVEATED_TANGENTS then varjo_TextureSize_Type_DynamicFoveation
                  else varjo_TextureSize_Type_Quad) focusIndex wh;
              fullFovTangents = GetFovTangents rt session viewIndex;
              focusFovTangents = GetFovTangents rt session focusIndex;
              horizontalMultiplier =
                ddiv (dabs (dsub (right fullFovTangents) (left fullFovTangents)))
                     (dabs (dsub (right focusFovTangents) (left focusFovTangents)));
              verticalMultiplier =
                ddiv (dabs (dsub (top_tan fullFovTangents) (bottom fullFovTangents)))
                     (dabs (dsub (top_tan focusFovTangents) (bottom focusFovTangents)))
          in and_then (int32_of_double (dmul (double_of_int32 w) horizontalMultiplier)) (\<lambda>tw.
             and_then (int32_of_double (dmul (double_of_int32 h) verticalMultiplier)) (\<lambda>th.
               Inr (AlignTo 2 tw, AlignTo 2 th))))
      else Inr (original_GetTextureSize rt session type viewIndex wh))"

subsection \<open>hooked_EndFrameWithLayers\<close>

text \<open>\<^verbatim>\<open>a[i]\<close> on an array or a \<^verbatim>\<open>std::array\<close> whose elements are the list \<open>a\<close>.\<close>

definition read_at :: "'a list \<Rightarrow> int \<Rightarrow> error + 'a" where
  "read_at a i = (if 0 \<le> i \<and> i < int (length a) then Inr (a ! nat i) else Inl OutOfBounds)"

text \<open>
  The first loop over the views of a layer only logs them, but it hands
  \<^verbatim>\<open>proj->views[j].projection.value\<close> to \<^verbatim>\<open>original_GetAlignedView\<close> for every
  \<^verbatim>\<open>j < proj->viewCount\<close>:
  \<^verbatim>\<open>for (int32_t j = 0; j < proj->viewCount; j++) {
      const auto tangents = original_GetAlignedView(proj->views[j].projection.value); }\<close>
\<close>

function trace_views ::
  "varjo_runtime \<Rightarrow> varjo_LayerMultiProjView list \<Rightarrow> int \<Rightarrow> int \<Rightarrow> error + unit" where
  "trace_views rt vs count j =
     (if j < count then
        and_then (read_at vs j) (\<lambda>v.
          let tangents = original_GetAlignedView rt (projection v)
          in trace_views rt vs count (j + 1))
      else Inr ())"
  by pat_completeness auto
termination
  by (relation "measure (\<lambda>(rt, vs, count, j). nat (count - j))") auto

text \<open>
  The deep copy of the views into a \<^verbatim>\<open>std::array<varjo_LayerMultiProjView, 4>\<close>:
  \<^verbatim>\<open>viewsAllocator.push_back({ proj->views[0], proj->views[1],
      proj->views[2 % proj->viewCount], proj->views[3 % proj->viewCount] });\<close>
  The initialisers of a braced list are evaluated in their order.
\<close>

definition copy_views :: "varjo_LayerMultiProj \<Rightarrow> error + varjo_LayerMultiProjView list" where
  "copy_views proj =
     and_then (read_at (views proj) 0) (\<lambda>v0.
     and_then (read_at (views proj) 1) (\<lambda>v1.
     and_then (c_rem 2 (sint (viewCount proj))) (\<lambda>i2.
     and_then (read_at (views proj) i2) (\<lambda>v2.
     and_then (c_rem 3 (sint (viewCount proj))) (\<lambda>i3.
     and_then (read_at (views proj) i3) (\<lambda>v3.
       Inr [v0, v1, v2, v3]))))))"

text \<open>
  The body of \<^verbatim>\<open>if (focusView.viewport.width == 1 && focusView.viewport.height == 1)\<close>
  for the focus view \<^verbatim>\<open>views[k]\<close> and its reference view \<^verbatim>\<open>views[k % 2]\<close>, two
  different elements of the copy; the result is the focus view after the body.
\<close>

definition patch_focus_view ::
  "varjo_runtime \<Rightarrow> varjo_Session \<Rightarrow> int32_t \<Rightarrow> varjo_LayerMultiProjView
    \<Rightarrow> varjo_LayerMultiProjView \<Rightarrow> error + varjo_LayerMultiProjView" where
  "patch_focus_view rt session k focusView referenceView =
     (let fullFovTangents = original_GetAlignedView rt (projection referenceView);
          focusFovTangents = GetFovTangents rt session k;
          horizontalFov = dadd (projectionRight fullFovTangents) (projectionLeft fullFovTangents);
          leftOffset = ddiv (dadd (left focusFovTangents) (projectionLeft fullFovTangents))
                            horizontalFov;
          verticalFov = dadd (projectionTop fullFovTangents) (projectionBottom fullFovTangents);
          topOffset = ddiv (dsub (projectionTop fullFovTangents) (top_tan focusFovTangents))
                           verticalFov
      in
        and_then (int32_of_double
                    (dmul leftOffset (double_of_int32 (width (viewport referenceView))))) (\<lambda>dx.
        and_then (add_int32 (viewport_x (viewport focusView)) dx) (\<lambda>x'.
        and_then (int32_of_double
                    (dmul (ddiv (dabs (dsub (right focusFovTangents) (left focusFovTangents)))
                                horizontalFov)
                          (double_of_int32 (width (viewport referenceView))))) (\<lambda>w'.
        and_then (int32_of_double
                    (dmul topOffset (double_of_int32 (height (viewport referenceView))))) (\<lambda>dy.
        and_then (add_int32 (viewport_y (viewport focusView)) dy) (\<lambda>y'.
        and_then (int32_of_double
                    (dmul (ddiv (dabs (dsub (top_tan focusFovTangents) (bottom focusFovTangents)))
                                verticalFov)
                          (double_of_int32 (height (viewport referenceView))))) (\<lambda>h'.
          Inr (focusView\<lparr>
                 viewport := \<lparr>swapChain = swapChain (viewport referenceView),
                              viewport_x = x', viewport_y = y',
                              width = AlignTo 2 w', height = AlignTo 2 h',
                              arrayIndex = arrayIndex (viewport referenceView)\<rparr>,
                 projection := varjo_GetProjectionMatrix rt focusFovTangents\<rparr>))))))))"

text \<open>
  \<^verbatim>\<open>for (int32_t k = 2; k < proj->viewCount; k++) { auto& focusView = views[k];
      const auto& referenceView = views[k % 2]; if (...) { ... } }\<close>
  on the copy \<open>vs\<close> of the views and the flags \<open>fl\<close> of the copy of the layer.
\<close>

function patch_focus_views ::
  "varjo_runtime \<Rightarrow> varjo_Session \<Rightarrow> int \<Rightarrow> int \<Rightarrow> varjo_LayerMultiProjView list \<Rightarrow> int64_t
    \<Rightarrow> error + varjo_LayerMultiProjView list \<times> int64_t" where
  "patch_focus_views rt session count k vs fl =
     (if k < count then
        and_then (read_at vs k) (\<lambda>focusView.
        and_then (read_at vs (k mod 2)) (\<lambda>referenceView.
          if width (viewport focusView) = 1 \<and> height (viewport focusView) = 1 then
            and_then (patch_focus_view rt session (word_of_int k) focusView referenceView)
              (\<lambda>focusView'.
                 patch_focus_views rt session count (k + 1) (vs[nat k := focusView'])
                   (if USE_FOVEATED_TANGENTS then fl OR varjo_LayerFlag_Foveated rt else fl))
          else patch_focus_views rt session count (k + 1) vs fl))
      else Inr (vs, fl))"
  by pat_completeness auto
termination
  by (relation "measure (\<lambda>(rt, session, count, k, vs, fl). nat (count - k))") auto

text \<open>
  One multi-projection layer: the logging loop, the deep copy
  (\<^verbatim>\<open>projAllocator.push_back(*proj)\<close>, the copy of the views,
  \<^verbatim>\<open>projAllocator.back().views = viewsAllocator.back().data()\<close>) and the patch of the
  focus views. The result is the element of \<^verbatim>\<open>projAllocator\<close> that the new pointer
  list points to, its \<open>views\<close> being the four elements of the copy.
\<close>

definition patch_layer ::
  "varjo_runtime \<Rightarrow> varjo_Session \<Rightarrow> varjo_LayerMultiProj \<Rightarrow> error + varjo_LayerMultiProj" where
  "patch_layer rt session proj =
     and_then (trace_views rt (views proj) (sint (viewCount proj)) 0) (\<lambda>_.
     and_then (copy_views proj) (\<lambda>vs.
     and_then (patch_focus_views rt session (sint (viewCount proj)) 2 vs (flags (header proj)))
       (\<lambda>(vs', fl').
          Inr (proj\<lparr>header := (header proj)\<lparr>flags := fl'\<rparr>, views := vs'\<rparr>))))"

text \<open>
  \<^verbatim>\<open>for (int32_t i = 0; i < submitInfo->layerCount; i++) {
      if (submitInfo->layers[i]->type == varjo_LayerMultiProjType) { ...
          newLayersPtr.push_back(reinterpret_cast<varjo_LayerHeader*>(&projAllocator.back()));
          ... } }\<close>
  The accumulator is \<^verbatim>\<open>newLayersPtr\<close>, each pointer shown as the layer it points to.
  The \<^verbatim>\<open>if\<close> has no \<^verbatim>\<open>else\<close>.
\<close>

function patch_layers ::
  "varjo_runtime \<Rightarrow> varjo_Session \<Rightarrow> varjo_SubmitInfoLayers \<Rightarrow> int \<Rightarrow> varjo_Layer list
    \<Rightarrow> error + varjo_Layer list" where
  "patch_layers rt session submitInfo i newLayersPtr =
     (if i < sint (layerCount submitInfo) then
        and_then (read_at (layers submitInfo) i) (\<lambda>layer.
          case layer of
            LayerMultiProj proj \<Rightarrow>
              and_then (patch_layer rt session proj) (\<lambda>proj'.
                patch_layers rt session submitInfo (i + 1)
                  (newLayersPtr @ [LayerMultiProj proj']))
          | LayerOther h \<Rightarrow> patch_layers rt session submitInfo (i + 1) newLayersPtr)
      else Inr newLayersPtr)"
  by pat_completeness auto
termination
  by (relation "measure (\<lambda>(rt, session, submitInfo, i, newLayersPtr).
        nat (sint (layerCount submitInfo) - i))") auto

text \<open>
  \<^verbatim>\<open>struct varjo_SubmitInfoLayers newSubmitInfo = *submitInfo; ...
  projAllocator.reserve(submitInfo->layerCount); ...
  newSubmitInfo.layers = newLayersPtr.data();
  original_EndFrameWithLayers(session, &newSubmitInfo);\<close>
  The result is the \<^verbatim>\<open>newSubmitInfo\<close> that the runtime is called with. \<^verbatim>\<open>reserve\<close>
  takes a \<^verbatim>\<open>size_t\<close>: a negative \<^verbatim>\<open>layerCount\<close> becomes a size above \<^verbatim>\<open>max_size()\<close>.
  With the capacity reserved, no \<^verbatim>\<open>push_back\<close> moves an element that a pointer of
  \<^verbatim>\<open>newLayersPtr\<close> points to.
\<close>

definition hooked_EndFrameWithLayers ::
  "varjo_runtime \<Rightarrow> varjo_Session \<Rightarrow> varjo_SubmitInfoLayers \<Rightarrow> error + varjo_SubmitInfoLayers" where
  "hooked_EndFrameWithLayers rt session submitInfo =
     (if sint (layerCount submitInfo) < 0 then Inl LengthError
      else and_then (patch_layers rt session submitInfo 0 [])
             (\<lambda>newLayersPtr. Inr (submitInfo\<lparr>layers := newLayersPtr\<rparr>)))"

declare trace_views.simps [simp del] patch_focus_views.simps [simp del]
  patch_layers.simps [simp del]

section \<open>A runtime with fixed answers\<close>

text \<open>
  The scenarios below run the program against a runtime whose queries answer with
  given values: one aligned view for every projection, the tangents \<open>full\<close> for the
  view indices 0 and 1 and \<open>focus\<close> for the others, one texture size. Its projection
  of four tangents is the list of the four, and its foveated flag is the bit 32.
\<close>

definition fixed_runtime ::
  "varjo_AlignedView \<Rightarrow> varjo_FovTangents \<Rightarrow> varjo_FovTangents \<Rightarrow> int32_t \<times> int32_t
    \<Rightarrow> varjo_runtime" where
  "fixed_runtime aligned full focus wh =
     \<lparr>original_GetAlignedView = (\<lambda>m. aligned),
      original_GetFovTangents = (\<lambda>session i. if sint i < 2 then full else focus),
      original_GetFoveatedFovTangents = (\<lambda>session i g. if sint i < 2 then full else focus),
      original_GetRenderingGaze = (\<lambda>session g. (False, g)),
      varjo_GetProjectionMatrix = (\<lambda>t. [top_tan t, bottom t, left t, right t]),
      original_GetTextureSize = (\<lambda>session type i _. wh),
      varjo_LayerFlag_Foveated = 32\<rparr>"

definition tangents :: "rat \<Rightarrow> rat \<Rightarrow> rat \<Rightarrow> rat \<Rightarrow> varjo_FovTangents" where
  "tangents l r t b = \<lparr>top_tan = Finite t, bottom = Finite b, left = Finite l, right = Finite r\<rparr>"

definition aligned_view :: "rat \<Rightarrow> rat \<Rightarrow> rat \<Rightarrow> rat \<Rightarrow> varjo_AlignedView" where
  "aligned_view l r t b =
     \<lparr>projectionTop = Finite t, projectionBottom = Finite b,
      projectionLeft = Finite l, projectionRight = Finite r\<rparr>"

text \<open>Views, layers and submissions for the scenarios.\<close>

definition view_at ::
  "varjo_SwapChain \<Rightarrow> int32_t \<Rightarrow> int32_t \<Rightarrow> int32_t \<Rightarrow> int32_t \<Rightarrow> varjo_LayerMultiProjView" where
  "view_at sc x y w h =
     \<lparr>projection = [], viewport = \<lparr>swapChain = sc, viewport_x = x, viewport_y = y,
        width = w, height = h, arrayIndex = 0\<rparr>\<rparr>"

definition layer_of :: "int32_t \<Rightarrow> varjo_LayerMultiProjView list \<Rightarrow> varjo_LayerMultiProj" where
  "layer_of n vs = \<lparr>header = \<lparr>flags = 0\<rparr>, space = 0, viewCount = n, views = vs\<rparr>"

definition submission :: "varjo_Layer list \<Rightarrow> varjo_SubmitInfoLayers" where
  "submission ls = \<lparr>frameNumber = 1, layerCount = of_nat (length ls), layers = ls\<rparr>"

text \<open>
  The scenario of the specification: the aligned view of every projection has the
  tangents 1, 1, 1, 1 and the focus views have the tangents \<open>focus\<close>.
\<close>

definition spec_runtime :: "varjo_FovTangents \<Rightarrow> varjo_runtime" where
  "spec_runtime focus =
     fixed_runtime (aligned_view 1 1 1 1) (tangents (- 1) 1 1 (- 1)) focus (1000, 1000)"

section \<open>Alignment\<close>

lemma and_not_1: "(x :: 32 word) AND NOT 1 = x - (x AND 1)"
  by (metis (no_types, lifting) and.commute and.right_neutral
    bit.de_Morgan_conj disjunctive_diff_eq_and_not word_and_not word_ao_dist
    word_not_not)

lemma AlignTo_2_eq: "AlignTo 2 n = (if even n then n else n + 1)"
proof -
  have "AlignTo 2 n = (n + 1) AND NOT 1"
    by (simp add: AlignTo_def add.commute)
  also have "\<dots> = (n + 1) - ((n + 1) AND 1)"
    by (rule and_not_1)
  also have "\<dots> = (n + 1) - of_bool (odd (n + 1))"
    by (simp only: and_one_eq mod_2_eq_odd)
  finally have eq: "AlignTo 2 n = (n + 1) - of_bool (odd (n + 1))" .
  show ?thesis unfolding eq by (cases "even n") simp_all
qed

lemma even_AlignTo_2: "even (AlignTo 2 n)"
  by (simp add: AlignTo_2_eq)

lemma AlignTo_2_idem: "AlignTo 2 (AlignTo 2 n) = AlignTo 2 n"
  by (simp add: AlignTo_2_eq)

lemma uint_AlignTo_2:
  assumes "uint n < 2 ^ 32 - 1"
  shows "uint (AlignTo 2 n) = (if even n then uint n else uint n + 1)"
proof -
  have "uint (n + 1) = uint n + 1" using assms
    by (simp add: uint_plus_if_size word_size)
  then show ?thesis by (simp add: AlignTo_2_eq)
qed

text \<open>
  Claim C7, as the code has it. \<open>AlignTo 2\<close> is idempotent and its result is even, for
  every \<^verbatim>\<open>uint32_t\<close>; for every \<open>n\<close> below \<open>2 ^ 32 - 1\<close> the result is at least \<open>n\<close> and
  exceeds it by less than 2.
\<close>

theorem AlignTo_2_contract:
  "AlignTo 2 (AlignTo 2 n) = AlignTo 2 n \<and> even (AlignTo 2 n) \<and>
   (uint n < 2 ^ 32 - 1 \<longrightarrow> uint n \<le> uint (AlignTo 2 n) \<and> uint (AlignTo 2 n) - uint n < 2)"
  by (simp add: AlignTo_2_idem even_AlignTo_2 uint_AlignTo_2)

theorem AlignTo_2_contract_witness:
  "uint (5 :: 32 word) < 2 ^ 32 - 1 \<and> AlignTo 2 5 = 6 \<and> AlignTo 2 6 = 6 \<and>
   uint (5 :: 32 word) \<le> uint (AlignTo 2 5) \<and> uint (AlignTo 2 5) - uint (5 :: 32 word) < 2"
  using AlignTo_2_contract [of 5] by (simp add: AlignTo_def)

text \<open>
  Claim C7 as stated fails at the greatest \<^verbatim>\<open>uint32_t\<close>: \<open>n + 1\<close> wraps to 0, so the
  result 0 is below \<open>n = 2 ^ 32 - 1\<close>.
\<close>

theorem AlignTo_2_wraps:
  "AlignTo 2 4294967295 = 0 \<and> \<not> uint (4294967295 :: 32 word) \<le> uint (AlignTo 2 4294967295)"
  by (simp add: AlignTo_def)

text \<open>
  The callers pass an \<^verbatim>\<open>int32_t\<close> and store the result in an \<^verbatim>\<open>int32_t\<close>: read as
  signed values, the greatest \<^verbatim>\<open>int32_t\<close> is aligned to the least one.
\<close>

lemma AlignTo_2_signed:
  "AlignTo 2 2147483647 = 2147483648 \<and> sint (AlignTo 2 2147483647) = - 2147483648"
  by (simp add: AlignTo_def)

section \<open>The gaze\<close>

text \<open>
  Claim C9. With \<^verbatim>\<open>USE_FOVEATED_GAZE\<close> 0, \<open>GetRenderingGaze\<close> returns true and writes the
  same gaze whatever the runtime, the session and the gaze passed in: forward
  \<open>(0, 0, 1)\<close> for the left eye, the right eye and the combined gaze, both eye statuses
  3 (the greatest eye status of the SDK, a tracked eye), stability 1; the gaze status
  is 2 (valid) and every other member is zero.
\<close>

theorem GetRenderingGaze_neutral:
  "GetRenderingGaze rt session g =
     (True, \<lparr>leftEye = \<lparr>forward = [Finite 0, Finite 0, Finite 1]\<rparr>,
             rightEye = \<lparr>forward = [Finite 0, Finite 0, Finite 1]\<rparr>,
             gaze = \<lparr>forward = [Finite 0, Finite 0, Finite 1]\<rparr>,
             stability = Finite 1, leftStatus = 3, rightStatus = 3, status = 2,
             leftPupilSize = Finite 0, rightPupilSize = Finite 0\<rparr>)"
  by (simp add: GetRenderingGaze_def USE_FOVEATED_GAZE_def zero_Gaze_def zero_Ray_def)

section \<open>The texture size of the other kinds\<close>

text \<open>
  Claim C10. For a size kind other than the stereo kind, \<open>hooked_GetTextureSize\<close>
  returns what the runtime's own \<^verbatim>\<open>varjo_GetTextureSize\<close> writes for the same session,
  size kind and view index, unchanged.
\<close>

theorem hooked_GetTextureSize_passthrough:
  "type \<noteq> varjo_TextureSize_Type_Stereo \<Longrightarrow>
   hooked_GetTextureSize rt session type viewIndex wh =
     Inr (original_GetTextureSize rt session type viewIndex wh)"
  by (simp add: hooked_GetTextureSize_def)

theorem hooked_GetTextureSize_passthrough_witness:
  "varjo_TextureSize_Type_Quad \<noteq> varjo_TextureSize_Type_Stereo \<and>
   hooked_GetTextureSize
     (fixed_runtime (aligned_view 1 1 1 1) (tangents (- 1) 1 1 (- 1))
        (tangents (- 1 / 2) (1 / 2) (1 / 2) (- 1 / 2)) (1000, 800))
     0 varjo_TextureSize_Type_Quad 0 (0, 0) = Inr (1000, 800)"
  using hooked_GetTextureSize_passthrough
    [of varjo_TextureSize_Type_Quad
        "fixed_runtime (aligned_view 1 1 1 1) (tangents (- 1) 1 1 (- 1))
           (tangents (- 1 / 2) (1 / 2) (1 / 2) (- 1 / 2)) (1000, 800)" 0 0 "(0, 0)"]
  by (simp add: fixed_runtime_def)

section \<open>Rounding to a double\<close>

text \<open>\<open>expo\<close> is the exponent of the leading bit.\<close>

lemma round_half_even_of_int: "round_half_even (of_int k) = k"
  by (simp add: round_half_even_def)

lemma expo_lower: assumes "x \<noteq> 0" shows "2 powi (expo x) \<le> \<bar>x\<bar>"
proof (cases "1 \<le> \<bar>x\<bar>")
  case True
  let ?n = "\<lfloor>\<bar>x\<bar>\<rfloor>"
  have n: "0 < ?n" using True by simp
  have b: "1 \<le> bitlen ?n" using n by (simp add: bitlen_alt_def)
  have "(2::int) ^ nat (bitlen ?n - 1) \<le> ?n" using bitlen_bounds[OF n] by simp
  then have "(of_int ((2::int) ^ nat (bitlen ?n - 1)) :: rat) \<le> of_int ?n"
    by (simp only: of_int_le_iff)
  also have "\<dots> \<le> \<bar>x\<bar>" by simp
  finally have "(2::rat) ^ nat (bitlen ?n - 1) \<le> \<bar>x\<bar>" by simp
  with True b show ?thesis by (simp add: expo_def power_int_def)
next
  case False
  let ?N = "\<lceil>1 / \<bar>x\<bar>\<rceil>"
  let ?b = "bitlen (?N - 1)"
  have x: "0 < \<bar>x\<bar>" "\<bar>x\<bar> < 1" using assms False by auto
  then have "1 < 1 / \<bar>x\<bar>" by (simp add: field_simps)
  then have N: "2 \<le> ?N" by (simp add: le_ceiling_iff)
  then have "?N - 1 < 2 ^ nat ?b" using bitlen_bounds[of "?N - 1"] by simp
  then have "?N \<le> 2 ^ nat ?b" by simp
  then have "(of_int ?N :: rat) \<le> of_int (2 ^ nat ?b)" by (simp only: of_int_le_iff)
  with le_of_int_ceiling[of "1 / \<bar>x\<bar>"] have "1 / \<bar>x\<bar> \<le> of_int (2 ^ nat ?b)"
    by (rule order_trans)
  then have "1 / \<bar>x\<bar> \<le> 2 ^ nat ?b" by simp
  then have "1 / 2 ^ nat ?b \<le> \<bar>x\<bar>" using x by (simp add: field_simps)
  moreover have "0 < ?b" using N bitlen_eq_zero_iff[of "?N - 1"] bitlen_nonneg[of "?N - 1"] by simp
  ultimately show ?thesis using False
    by (simp add: expo_def power_int_def inverse_eq_divide power_one_over)
qed


lemma expo_upper: assumes "x \<noteq> 0" shows "\<bar>x\<bar> < 2 powi (expo x + 1)"
proof (cases "1 \<le> \<bar>x\<bar>")
  case True
  let ?n = "\<lfloor>\<bar>x\<bar>\<rfloor>"
  have n: "0 < ?n" using True by simp
  have b: "1 \<le> bitlen ?n" using n by (simp add: bitlen_alt_def)
  have "?n < 2 ^ nat (bitlen ?n)" using bitlen_bounds [OF n] by simp
  then have "?n + 1 \<le> 2 ^ nat (bitlen ?n)" by simp
  then have "(of_int (?n + 1) :: rat) \<le> of_int (2 ^ nat (bitlen ?n))"
    by (simp only: of_int_le_iff)
  moreover have "\<bar>x\<bar> < of_int (?n + 1)" by linarith
  ultimately have "\<bar>x\<bar> < 2 ^ nat (bitlen ?n)" by simp
  with True b show ?thesis by (simp add: expo_def power_int_def)
next
  case False
  let ?N = "\<lceil>1 / \<bar>x\<bar>\<rceil>"
  let ?b = "bitlen (?N - 1)"
  have x: "0 < \<bar>x\<bar>" "\<bar>x\<bar> < 1" using assms False by auto
  then have "1 < 1 / \<bar>x\<bar>" by (simp add: field_simps)
  then have N: "2 \<le> ?N" by (simp add: le_ceiling_iff)
  then have b: "1 \<le> ?b" by (simp add: bitlen_alt_def)
  have "2 ^ nat (?b - 1) \<le> ?N - 1" using bitlen_bounds [of "?N - 1"] N by simp
  then have "(of_int (2 ^ nat (?b - 1)) :: rat) \<le> of_int (?N - 1)"
    by (simp only: of_int_le_iff)
  moreover have "of_int (?N - 1) < 1 / \<bar>x\<bar>" by linarith
  ultimately have "2 ^ nat (?b - 1) < 1 / \<bar>x\<bar>" by simp
  then have lt: "\<bar>x\<bar> * 2 ^ nat (?b - 1) < 1" using x by (simp add: field_simps)
  show ?thesis
  proof (cases "?b = 1")
    case True
    with lt x False show ?thesis by (simp add: expo_def)
  next
    case ne: False
    with b have "expo x + 1 < 0" "nat (- (expo x + 1)) = nat (?b - 1)"
      using False by (simp_all add: expo_def)
    with lt show ?thesis
      by (simp add: power_int_def field_simps power_one_over)
  qed
qed

text \<open>
  A value with at most 53 significant bits and an exponent in range is a binary64
  value: rounding leaves it as it is.
\<close>

lemma round_double_exact:
  assumes m: "\<bar>m\<bar> < 2 ^ 53" and k: "k \<le> 1074"
  shows "round_double (of_int m / 2 ^ k) = Finite (of_int m / 2 ^ k)"
proof (cases "m = 0")
  case True
  then show ?thesis by (simp add: round_double_def)
next
  case False
  let ?x = "of_int m / 2 ^ k :: rat"
  let ?u = "max (expo ?x - 52) (- 1074)"
  have x0: "?x \<noteq> 0" using False by simp
  have "\<bar>?x\<bar> = of_int \<bar>m\<bar> / 2 ^ k" by (simp add: abs_divide)
  also have "\<dots> < of_int (2 ^ 53) / 2 ^ k"
    using m by (intro divide_strict_right_mono) (simp_all only: of_int_less_iff zero_less_power zero_less_numeral)
  also have "\<dots> = 2 powi (53 - int k)"
    by (simp add: power_int_diff)
  finally have "\<bar>?x\<bar> < 2 powi (53 - int k)" .
  with expo_lower[OF x0] have "2 powi (expo ?x) < (2::rat) powi (53 - int k)"
    by (rule le_less_trans)
  then have e: "expo ?x < 53 - int k"
    using power_int_increasing[of "53 - int k" "expo ?x" "2::rat"]
    by (cases "expo ?x < 53 - int k") auto
  then have u: "?u \<le> - int k" using k by (simp add: max_def)
  define j where "j = nat (- ?u - int k)"
  have uj: "?u = - int (j + k)" unfolding j_def using u by linarith
  have p: "(2::rat) powi ?u = 1 / 2 ^ (j + k)"
    unfolding uj by (simp only: power_int_minus_divide power_int_of_nat)
  have q: "?x / 2 powi ?u = of_int (m * 2 ^ j)"
    unfolding p by (simp add: power_add)
  have r: "of_int (round_half_even (?x / 2 powi ?u)) * 2 powi ?u = ?x"
    unfolding q round_half_even_of_int unfolding p by (simp add: power_add)
  have "\<bar>?x\<bar> < 2 ^ 1024"
  proof -
    have "(1::rat) \<le> 2 ^ k" by (rule one_le_power) simp
    then have "\<bar>rat_of_int m\<bar> * 1 \<le> \<bar>rat_of_int m\<bar> * 2 ^ k"
      by (intro mult_left_mono) simp_all
    then have "\<bar>?x\<bar> \<le> of_int \<bar>m\<bar>" by (simp add: abs_divide divide_le_eq)
    also have "\<dots> < of_int (2 ^ 53)" using m by (simp only: of_int_less_iff)
    also have "\<dots> \<le> (2::rat) ^ 1024" by simp
    finally show ?thesis .
  qed
  then show ?thesis using x0 r
    by (simp add: round_double_def Let_def del: of_int_mult of_int_power)
qed

text \<open>One tenth is no binary64 value; it rounds to \<open>3602879701896397 / 2 ^ 55\<close>.\<close>

lemma round_double_tenth:
  "round_double (1 / 10) = Finite (3602879701896397 / 36028797018963968)"
  by code_simp

text \<open>Rules that evaluate the rounding of the binary fractions of the scenarios.\<close>

lemma round_double_numeral:
  "numeral n < (2::int) ^ 53 \<Longrightarrow> round_double (numeral n) = Finite (numeral n)"
  using round_double_exact [of "numeral n" 0] by simp

lemma round_double_neg_numeral:
  "numeral n < (2::int) ^ 53 \<Longrightarrow> round_double (- numeral n) = Finite (- numeral n)"
  using round_double_exact [of "- numeral n" 0] by simp

lemma round_double_1: "round_double 1 = Finite 1"
  using round_double_exact [of 1 0] by simp

lemma round_double_neg_1: "round_double (- 1) = Finite (- 1)"
  using round_double_exact [of "- 1" 0] by simp

lemma round_double_half:
  "numeral n < (2::int) ^ 53 \<Longrightarrow> round_double (numeral n / 2) = Finite (numeral n / 2)"
  using round_double_exact [of "numeral n" 1] by simp

lemma round_double_1_half: "round_double (1 / 2) = Finite (1 / 2)"
  using round_double_exact [of 1 1] by simp

lemma round_double_quarter:
  "numeral n < (2::int) ^ 53 \<Longrightarrow> round_double (numeral n / 4) = Finite (numeral n / 4)"
  using round_double_exact [of "numeral n" 2] by simp

lemma round_double_1_quarter: "round_double (1 / 4) = Finite (1 / 4)"
  using round_double_exact [of 1 2] by simp

lemma round_double_0: "round_double 0 = Finite 0"
  by (simp add: round_double_def)

lemma and_then_Inr: "and_then (Inr v) f = f v"
  by (simp add: and_then_def)

lemma and_then_Inl: "and_then (Inl e) f = Inl e"
  by (simp add: and_then_def)

lemma floor_numeral_div: "\<lfloor>numeral a / numeral b :: rat\<rfloor> = numeral a div numeral b"
  using floor_divide_of_int_eq [of "numeral a" "numeral b", where ?'a = rat] by simp

lemmas round_double_simps = floor_numeral_div round_double_0 round_double_numeral round_double_neg_numeral round_double_1
  round_double_neg_1 round_double_half round_double_1_half round_double_quarter round_double_1_quarter

section \<open>The frame submission\<close>

lemma and_then_eq_Inr: "and_then r f = Inr y \<longleftrightarrow> (\<exists>v. r = Inr v \<and> f v = Inr y)"
  by (cases r) (simp_all add: and_then_def)

lemma read_at_eq_Inr: "read_at a i = Inr v \<longleftrightarrow> 0 \<le> i \<and> i < int (length a) \<and> v = a ! nat i"
  by (auto simp: read_at_def)

lemma patch_focus_views_result:
  "patch_focus_views rt s count k vs fl = Inr (vs', fl') \<Longrightarrow> 2 \<le> k \<Longrightarrow> length vs = 4 \<Longrightarrow>
   length vs' = 4 \<and> (count \<le> 4 \<or> count \<le> k) \<and>
   (\<forall>j. int j < k \<longrightarrow> vs' ! j = vs ! j) \<and>
   (\<forall>j. k \<le> int j \<and> int j < count \<longrightarrow>
      (if width (viewport (vs ! j)) = 1 \<and> height (viewport (vs ! j)) = 1
       then patch_focus_view rt s (of_nat j) (vs ! j) (vs ! (j mod 2)) = Inr (vs' ! j)
       else vs' ! j = vs ! j))"
proof (induction rt s count k vs fl rule: patch_focus_views.induct)
  case (1 rt s count k vs fl)
  show ?case
  proof (cases "k < count")
    case False
    with "1.prems" show ?thesis by (auto simp: patch_focus_views.simps)
  next
    case True
    let ?fv = "vs ! nat k"
    let ?rv = "vs ! nat (k mod 2)"
    let ?sent = "width (viewport ?fv) = 1 \<and> height (viewport ?fv) = 1"
    from "1.prems"(1) True have k4: "k < 4"
      by (subst (asm) patch_focus_views.simps) (auto simp: and_then_eq_Inr read_at_eq_Inr "1.prems")
    have r1: "read_at vs k = Inr ?fv" using k4 "1.prems" by (simp add: read_at_def)
    have r2: "read_at vs (k mod 2) = Inr ?rv" using "1.prems" by (simp add: read_at_def) 
    have km: "nat (k mod 2) = nat k mod 2" using "1.prems"(2) by (simp add: nat_mod_distrib)
    show ?thesis
    proof (cases ?sent)
      case False
      with "1.prems"(1) True r1 r2 have rec: "patch_focus_views rt s count (k + 1) vs fl = Inr (vs', fl')"
        by (subst (asm) patch_focus_views.simps) (simp add: and_then_Inr)
      have k1: "2 \<le> k + 1" using "1.prems"(2) by simp
      from "1.IH"(2)[OF True False rec k1 "1.prems"(3)]
      have ih: "length vs' = 4" "count \<le> 4 \<or> count \<le> k + 1"
        "\<And>j. int j < k + 1 \<Longrightarrow> vs' ! j = vs ! j"
        "\<And>j. k + 1 \<le> int j \<Longrightarrow> int j < count \<Longrightarrow>
          (if width (viewport (vs ! j)) = 1 \<and> height (viewport (vs ! j)) = 1
           then patch_focus_view rt s (of_nat j) (vs ! j) (vs ! (j mod 2)) = Inr (vs' ! j)
           else vs' ! j = vs ! j)"
        by blast+
      have lower: "vs' ! j = vs ! j" if "int j < k" for j
        using ih(3)[of j] that by simp
      have upper: "(if width (viewport (vs ! j)) = 1 \<and> height (viewport (vs ! j)) = 1
           then patch_focus_view rt s (of_nat j) (vs ! j) (vs ! (j mod 2)) = Inr (vs' ! j)
           else vs' ! j = vs ! j)" if "k \<le> int j" "int j < count" for j
      proof (cases "int j = k")
        case True
        then have "nat k = j" by simp
        with False ih(3)[of j] True show ?thesis by auto
      next
        case False
        with that ih(4)[of j] show ?thesis by auto
      qed
      show ?thesis
      proof (intro conjI allI impI)
        show "length vs' = 4" by fact
        show "count \<le> 4 \<or> count \<le> k" using ih(2) k4 by arith
      next
        fix j assume "int j < k"
        then show "vs' ! j = vs ! j" by (rule lower)
      next
        fix j assume "k \<le> int j \<and> int j < count"
        then show "if width (viewport (vs ! j)) = 1 \<and> height (viewport (vs ! j)) = 1
           then patch_focus_view rt s (of_nat j) (vs ! j) (vs ! (j mod 2)) = Inr (vs' ! j)
           else vs' ! j = vs ! j" using upper by blast
      qed
    next
      case sent: True
      from "1.prems"(1) True r1 r2 sent obtain fv' where
        pf: "patch_focus_view rt s (word_of_int k) ?fv ?rv = Inr fv'" and
        rec: "patch_focus_views rt s count (k + 1) (vs[nat k := fv'])
               (if USE_FOVEATED_TANGENTS then fl OR varjo_LayerFlag_Foveated rt else fl) = Inr (vs', fl')"
        by (subst (asm) patch_focus_views.simps) (auto simp: and_then_Inr and_then_eq_Inr)
      have k1: "2 \<le> k + 1" using "1.prems"(2) by simp
      have l1: "length (vs[nat k := fv']) = 4" using "1.prems"(3) by simp
      from "1.IH"(1)[OF True sent rec k1 l1]
      have ih: "length vs' = 4" "count \<le> 4 \<or> count \<le> k + 1"
        "\<And>j. int j < k + 1 \<Longrightarrow> vs' ! j = vs[nat k := fv'] ! j"
        "\<And>j. k + 1 \<le> int j \<Longrightarrow> int j < count \<Longrightarrow>
          (if width (viewport (vs[nat k := fv'] ! j)) = 1 \<and> height (viewport (vs[nat k := fv'] ! j)) = 1
           then patch_focus_view rt s (of_nat j) (vs[nat k := fv'] ! j)
                  (vs[nat k := fv'] ! (j mod 2)) = Inr (vs' ! j)
           else vs' ! j = vs[nat k := fv'] ! j)"
        by blast+
      have lower: "vs' ! j = vs ! j" if "int j < k" for j
        using ih(3)[of j] that by simp
      have upper: "(if width (viewport (vs ! j)) = 1 \<and> height (viewport (vs ! j)) = 1
           then patch_focus_view rt s (of_nat j) (vs ! j) (vs ! (j mod 2)) = Inr (vs' ! j)
           else vs' ! j = vs ! j)" if "k \<le> int j" "int j < count" for j
      proof (cases "int j = k")
        case True
        then have jk: "nat k = j" by auto
        have "vs' ! j = fv'" using ih(3)[of j] True k4 "1.prems" jk by simp
        moreover have "(word_of_int k :: 32 word) = of_nat j" using True [symmetric] by simp
        ultimately show ?thesis using pf sent jk km by simp
      next
        case False
        have "j mod 2 \<noteq> nat k" using "1.prems"(2) by arith
        with False that ih(4)[of j] show ?thesis by auto
      qed
      show ?thesis
      proof (intro conjI allI impI)
        show "length vs' = 4" by fact
        show "count \<le> 4 \<or> count \<le> k" using ih(2) k4 by arith
      next
        fix j assume "int j < k"
        then show "vs' ! j = vs ! j" by (rule lower)
      next
        fix j assume "k \<le> int j \<and> int j < count"
        then show "if width (viewport (vs ! j)) = 1 \<and> height (viewport (vs ! j)) = 1
           then patch_focus_view rt s (of_nat j) (vs ! j) (vs ! (j mod 2)) = Inr (vs' ! j)
           else vs' ! j = vs ! j" using upper by blast
      qed
    qed
  qed
qed

text \<open>
  A layer with 2, 3 or 4 views and a \<^verbatim>\<open>viewCount\<close> that is their number is logged and
  copied within the bounds of its array.
\<close>

lemma trace_views_in_bounds:
  "0 \<le> j \<Longrightarrow> count \<le> int (length vs) \<Longrightarrow> trace_views rt vs count j = Inr ()"
proof (induction rt vs count j rule: trace_views.induct)
  case (1 rt vs count j)
  show ?case
  proof (cases "j < count")
    case True
    with "1.prems" have "read_at vs j = Inr (vs ! nat j)" by (simp add: read_at_def)
    moreover have "trace_views rt vs count (j + 1) = Inr ()"
      using "1.IH" [OF True] "1.prems" by simp
    ultimately show ?thesis using True
      by (subst trace_views.simps) (simp add: and_then_Inr)
  next
    case False
    then show ?thesis by (subst trace_views.simps) simp
  qed
qed

lemma copy_views_in_bounds:
  assumes "2 \<le> sint (viewCount proj)" and "sint (viewCount proj) = int (length (views proj))"
  shows "\<exists>vs. copy_views proj = Inr vs"
proof -
  let ?n = "sint (viewCount proj)"
  have "c_rem 2 ?n = Inr (if ?n = 2 then 0 else 2)"
    using assms(1) by (auto simp: c_rem_def)
  moreover have "c_rem 3 ?n = Inr (if ?n = 2 then 1 else if ?n = 3 then 0 else 3)"
    using assms(1) by (auto simp: c_rem_def)
  ultimately show ?thesis using assms
    by (auto simp: copy_views_def read_at_def and_then_Inr)
qed

lemma c_rem_small: "0 \<le> a \<Longrightarrow> a < b \<Longrightarrow> c_rem a b = Inr a"
  by (simp add: c_rem_def)

lemma copy_views_result:
  assumes "copy_views proj = Inr vs"
  shows "length vs = 4 \<and> vs ! 0 = views proj ! 0 \<and> vs ! 1 = views proj ! 1 \<and>
         (2 < sint (viewCount proj) \<longrightarrow> vs ! 2 = views proj ! 2) \<and>
         (3 < sint (viewCount proj) \<longrightarrow> vs ! 3 = views proj ! 3)"
  using assms
  by (auto simp: copy_views_def and_then_eq_Inr read_at_eq_Inr c_rem_small)

lemma patch_layer_result:
  assumes "patch_layer rt s proj = Inr proj'"
  shows "viewCount proj' = viewCount proj \<and> space proj' = space proj \<and>
         length (views proj') = 4 \<and> sint (viewCount proj) \<le> 4 \<and>
         views proj' ! 0 = views proj ! 0 \<and> views proj' ! 1 = views proj ! 1 \<and>
         (\<forall>j. 2 \<le> j \<and> int j < sint (viewCount proj) \<longrightarrow>
            (if width (viewport (views proj ! j)) = 1 \<and> height (viewport (views proj ! j)) = 1
             then patch_focus_view rt s (of_nat j) (views proj ! j) (views proj ! (j mod 2))
                    = Inr (views proj' ! j)
             else views proj' ! j = views proj ! j))"
proof -
  from assms obtain vs vs' fl' where
    cv: "copy_views proj = Inr vs" and
    pf: "patch_focus_views rt s (sint (viewCount proj)) 2 vs (flags (header proj)) = Inr (vs', fl')" and
    p': "proj' = proj\<lparr>header := (header proj)\<lparr>flags := fl'\<rparr>, views := vs'\<rparr>"
    by (auto simp: patch_layer_def and_then_eq_Inr)
  note c = copy_views_result[OF cv]
  from c have len: "length vs = 4" by simp
  note r = patch_focus_views_result[OF pf _ len, simplified]
  have A: "if width (viewport (views proj ! j)) = 1 \<and> height (viewport (views proj ! j)) = 1
        then patch_focus_view rt s (of_nat j) (views proj ! j) (views proj ! (j mod 2))
               = Inr (views proj' ! j)
        else views proj' ! j = views proj ! j"
    if j: "2 \<le> j" "int j < sint (viewCount proj)" for j
  proof -
    from r j have j4: "j = 2 \<or> j = 3" by auto
    then have "vs ! j = views proj ! j" using c j by auto
    moreover have "vs ! (j mod 2) = views proj ! (j mod 2)" using j4 c by auto
    moreover from r j have "if width (viewport (vs ! j)) = 1 \<and> height (viewport (vs ! j)) = 1
       then patch_focus_view rt s (of_nat j) (vs ! j) (vs ! (j mod 2)) = Inr (vs' ! j)
       else vs' ! j = vs ! j" by simp
    ultimately show ?thesis by (auto simp: p' split: if_splits)
  qed
  show ?thesis
  proof (intro conjI allI impI)
    show "viewCount proj' = viewCount proj" "space proj' = space proj" by (simp_all add: p')
    show "length (views proj') = 4" using r by (simp add: p')
    show "sint (viewCount proj) \<le> 4" using r by auto
    show "views proj' ! 0 = views proj ! 0" "views proj' ! 1 = views proj ! 1"
      using r c by (simp_all add: p')
  next
    fix j assume "2 \<le> j \<and> int j < sint (viewCount proj)"
    then show "if width (viewport (views proj ! j)) = 1 \<and> height (viewport (views proj ! j)) = 1
        then patch_focus_view rt s (of_nat j) (views proj ! j) (views proj ! (j mod 2))
               = Inr (views proj' ! j)
        else views proj' ! j = views proj ! j" using A by blast
  qed
qed


text \<open>
  The patcher returns on a layer with 2, 3 or 4 views, a \<^verbatim>\<open>viewCount\<close> that is their
  number and no sentinel among the focus views: the copy of the layer differs from
  the layer in its view array only, which is the four-element copy.
\<close>

lemma patch_focus_views_no_sentinel:
  "2 \<le> k \<Longrightarrow> count \<le> 4 \<Longrightarrow> length vs = 4 \<Longrightarrow>
   (\<forall>j. k \<le> int j \<and> int j < count \<longrightarrow>
      \<not> (width (viewport (vs ! j)) = 1 \<and> height (viewport (vs ! j)) = 1)) \<Longrightarrow>
   patch_focus_views rt s count k vs fl = Inr (vs, fl)"
proof (induction rt s count k vs fl rule: patch_focus_views.induct)
  case (1 rt s count k vs fl)
  show ?case
  proof (cases "k < count")
    case False
    then show ?thesis by (subst patch_focus_views.simps) simp
  next
    case True
    have r1: "read_at vs k = Inr (vs ! nat k)" using True "1.prems" by (simp add: read_at_def)
    have r2: "read_at vs (k mod 2) = Inr (vs ! nat (k mod 2))"
      using "1.prems" by (simp add: read_at_def)
    have "k \<le> int (nat k) \<and> int (nat k) < count" using True "1.prems"(1) by simp
    with "1.prems"(4)
    have ns: "\<not> (width (viewport (vs ! nat k)) = 1 \<and> height (viewport (vs ! nat k)) = 1)"
      by blast
    have k1: "2 \<le> k + 1" using "1.prems"(1) by simp
    have rest: "\<forall>j. k + 1 \<le> int j \<and> int j < count \<longrightarrow>
      \<not> (width (viewport (vs ! j)) = 1 \<and> height (viewport (vs ! j)) = 1)"
      using "1.prems"(4) by auto
    have "patch_focus_views rt s count (k + 1) vs fl = Inr (vs, fl)"
      by (rule "1.IH"(2) [OF True ns k1 "1.prems"(2,3) rest])
    then show ?thesis using True r1 r2 ns
      by (subst patch_focus_views.simps) (auto simp: and_then_Inr)
  qed
qed

lemma patch_layer_no_sentinel:
  assumes "2 \<le> sint (viewCount proj)" and "sint (viewCount proj) \<le> 4"
    and "sint (viewCount proj) = int (length (views proj))"
    and "\<forall>j. 2 \<le> j \<and> j < length (views proj) \<longrightarrow>
          \<not> (width (viewport (views proj ! j)) = 1 \<and> height (viewport (views proj ! j)) = 1)"
  shows "\<exists>vs. copy_views proj = Inr vs \<and> patch_layer rt s proj = Inr (proj\<lparr>views := vs\<rparr>)"
proof -
  from copy_views_in_bounds [OF assms(1,3)] obtain vs where cv: "copy_views proj = Inr vs" ..
  note c = copy_views_result [OF cv]
  have tr: "trace_views rt (views proj) (sint (viewCount proj)) 0 = Inr ()"
    using assms(3) by (simp add: trace_views_in_bounds)
  have ns: "\<forall>j. 2 \<le> int j \<and> int j < sint (viewCount proj) \<longrightarrow>
      \<not> (width (viewport (vs ! j)) = 1 \<and> height (viewport (vs ! j)) = 1)"
  proof (intro allI impI)
    fix j assume j: "2 \<le> int j \<and> int j < sint (viewCount proj)"
    with assms(2) have "j = 2 \<or> j = 3" by auto
    with c j have "vs ! j = views proj ! j" by auto
    moreover from j assms(3) have "2 \<le> j \<and> j < length (views proj)" by simp
    ultimately show "\<not> (width (viewport (vs ! j)) = 1 \<and> height (viewport (vs ! j)) = 1)"
      using assms(4) by simp
  qed
  have "patch_focus_views rt s (sint (viewCount proj)) 2 vs (flags (header proj))
          = Inr (vs, flags (header proj))"
    using c assms(2) ns by (intro patch_focus_views_no_sentinel) simp_all
  with cv tr show ?thesis by (simp add: patch_layer_def and_then_Inr)
qed

lemma patch_layers_result:
  "patch_layers rt s si i acc = Inr out \<Longrightarrow> 0 \<le> i \<Longrightarrow>
   set acc \<subseteq> set out \<and>
   (\<forall>l \<in> set out. l \<in> set acc \<or>
      (\<exists>p p'. LayerMultiProj p \<in> set (layers si) \<and> patch_layer rt s p = Inr p' \<and>
         l = LayerMultiProj p')) \<and>
   (\<forall>n p. i \<le> int n \<and> int n < sint (layerCount si) \<and> layers si ! n = LayerMultiProj p \<longrightarrow>
      (\<exists>p'. patch_layer rt s p = Inr p' \<and> LayerMultiProj p' \<in> set out))"
proof (induction rt s si i acc rule: patch_layers.induct)
  case (1 rt s si i acc)
  show ?case
  proof (cases "i < sint (layerCount si)")
    case False
    with "1.prems" show ?thesis by (auto simp: patch_layers.simps)
  next
    case True
    have i1: "0 \<le> i + 1" using "1.prems"(2) by simp
    from "1.prems" True obtain layer where
      rd: "read_at (layers si) i = Inr layer" and
      body: "(case layer of
            LayerMultiProj proj \<Rightarrow>
              and_then (patch_layer rt s proj) (\<lambda>proj'.
                patch_layers rt s si (i + 1) (acc @ [LayerMultiProj proj']))
          | LayerOther h \<Rightarrow> patch_layers rt s si (i + 1) acc) = Inr out"
      by (subst (asm) patch_layers.simps) (auto simp: and_then_eq_Inr)
    from rd have li: "nat i < length (layers si)" "layer = layers si ! nat i"
      using "1.prems"(2) by (auto simp: read_at_eq_Inr)
    show ?thesis
    proof (cases layer)
      case (LayerMultiProj p)
      with body obtain p' where pl: "patch_layer rt s p = Inr p'" and
        rec: "patch_layers rt s si (i + 1) (acc @ [LayerMultiProj p']) = Inr out"
        by (auto simp: and_then_eq_Inr)
      from "1.IH"(1)[OF True rec i1]
      have ih1: "set (acc @ [LayerMultiProj p']) \<subseteq> set out"
        and ih2: "\<And>l. l \<in> set out \<Longrightarrow> l \<in> set (acc @ [LayerMultiProj p']) \<or>
          (\<exists>p p'. LayerMultiProj p \<in> set (layers si) \<and> patch_layer rt s p = Inr p' \<and>
             l = LayerMultiProj p')"
        and ih3: "\<And>n p. i + 1 \<le> int n \<Longrightarrow> int n < sint (layerCount si) \<Longrightarrow>
           layers si ! n = LayerMultiProj p \<Longrightarrow>
           (\<exists>p'. patch_layer rt s p = Inr p' \<and> LayerMultiProj p' \<in> set out)"
        by blast+
      have mem: "LayerMultiProj p \<in> set (layers si)"
        using li LayerMultiProj by (metis nth_mem)
      show ?thesis
      proof (intro conjI ballI allI impI)
        show "set acc \<subseteq> set out" using ih1 by auto
      next
        fix l assume "l \<in> set out"
        from ih2[OF this] mem pl
        show "l \<in> set acc \<or>
          (\<exists>p p'. LayerMultiProj p \<in> set (layers si) \<and> patch_layer rt s p = Inr p' \<and>
             l = LayerMultiProj p')" by auto
      next
        fix n q assume a: "i \<le> int n \<and> int n < sint (layerCount si) \<and> layers si ! n = LayerMultiProj q"
        show "\<exists>p'. patch_layer rt s q = Inr p' \<and> LayerMultiProj p' \<in> set out"
        proof (cases "int n = i")
          case True
          then have "nat i = n" by auto
          with a li LayerMultiProj have "q = p" by simp
          with pl ih1 show ?thesis by auto
        next
          case False
          with a ih3[of n q] show ?thesis by auto
        qed
      qed
    next
      case (LayerOther h)
      with body have rec: "patch_layers rt s si (i + 1) acc = Inr out" by simp
      from "1.IH"(2)[OF True rec i1]
      have ih1: "set acc \<subseteq> set out"
        and ih2: "\<And>l. l \<in> set out \<Longrightarrow> l \<in> set acc \<or>
          (\<exists>p p'. LayerMultiProj p \<in> set (layers si) \<and> patch_layer rt s p = Inr p' \<and>
             l = LayerMultiProj p')"
        and ih3: "\<And>n p. i + 1 \<le> int n \<Longrightarrow> int n < sint (layerCount si) \<Longrightarrow>
           layers si ! n = LayerMultiProj p \<Longrightarrow>
           (\<exists>p'. patch_layer rt s p = Inr p' \<and> LayerMultiProj p' \<in> set out)"
        by blast+
      show ?thesis
      proof (intro conjI ballI allI impI)
        show "set acc \<subseteq> set out" by (rule ih1)
      next
        fix l assume "l \<in> set out"
        from ih2[OF this]
        show "l \<in> set acc \<or>
          (\<exists>p p'. LayerMultiProj p \<in> set (layers si) \<and> patch_layer rt s p = Inr p' \<and>
             l = LayerMultiProj p')" .
      next
        fix n q assume a: "i \<le> int n \<and> int n < sint (layerCount si) \<and> layers si ! n = LayerMultiProj q"
        show "\<exists>p'. patch_layer rt s q = Inr p' \<and> LayerMultiProj p' \<in> set out"
        proof (cases "int n = i")
          case True
          then have "nat i = n" by auto
          with a li LayerOther show ?thesis by simp
        next
          case False
          with a ih3[of n q] show ?thesis by auto
        qed
      qed
    qed
  qed
qed

lemma hooked_EndFrameWithLayers_result:
  assumes "hooked_EndFrameWithLayers rt s si = Inr si'"
  shows "frameNumber si' = frameNumber si \<and> layerCount si' = layerCount si \<and>
    (\<forall>l \<in> set (layers si').
      (\<exists>p p'. LayerMultiProj p \<in> set (layers si) \<and> patch_layer rt s p = Inr p' \<and>
         l = LayerMultiProj p')) \<and>
    (\<forall>n p. int n < sint (layerCount si) \<and> layers si ! n = LayerMultiProj p \<longrightarrow>
      (\<exists>p'. patch_layer rt s p = Inr p' \<and> LayerMultiProj p' \<in> set (layers si')))"
proof -
  from assms obtain out where pl: "patch_layers rt s si 0 [] = Inr out"
    and si': "si' = si\<lparr>layers := out\<rparr>"
    by (auto simp: hooked_EndFrameWithLayers_def and_then_eq_Inr split: if_splits)
  from patch_layers_result[OF pl] show ?thesis by (simp add: si')
qed


lemma int32_of_double_eq_Inr:
  "int32_of_double d = Inr w \<longleftrightarrow>
     (\<exists>a. d = Finite a \<and> - (2 ^ 31) \<le> trunc a \<and> trunc a < 2 ^ 31 \<and> w = word_of_int (trunc a))"
  by (cases d) auto

lemma add_int32_eq_Inr:
  "add_int32 a b = Inr r \<longleftrightarrow>
     - (2 ^ 31) \<le> sint a + sint b \<and> sint a + sint b < 2 ^ 31 \<and> r = a + b"
  by (auto simp: add_int32_def)

lemma patch_focus_view_result:
  assumes "patch_focus_view rt s k fv rv = Inr v"
  defines "al \<equiv> original_GetAlignedView rt (projection rv)"
    and "ft \<equiv> GetFovTangents rt s k"
  defines "hfov \<equiv> dadd (projectionRight al) (projectionLeft al)"
    and "vfov \<equiv> dadd (projectionTop al) (projectionBottom al)"
  shows "\<exists>ox ow oy oh.
     dmul (ddiv (dadd (left ft) (projectionLeft al)) hfov)
          (double_of_int32 (width (viewport rv))) = Finite ox \<and>
     dmul (ddiv (dabs (dsub (right ft) (left ft))) hfov)
          (double_of_int32 (width (viewport rv))) = Finite ow \<and>
     dmul (ddiv (dsub (projectionTop al) (top_tan ft)) vfov)
          (double_of_int32 (height (viewport rv))) = Finite oy \<and>
     dmul (ddiv (dabs (dsub (top_tan ft) (bottom ft))) vfov)
          (double_of_int32 (height (viewport rv))) = Finite oh \<and>
     viewport v =
       \<lparr>swapChain = swapChain (viewport rv),
        viewport_x = viewport_x (viewport fv) + word_of_int (trunc ox),
        viewport_y = viewport_y (viewport fv) + word_of_int (trunc oy),
        width = AlignTo 2 (word_of_int (trunc ow)),
        height = AlignTo 2 (word_of_int (trunc oh)),
        arrayIndex = arrayIndex (viewport rv)\<rparr> \<and>
     projection v = varjo_GetProjectionMatrix rt ft"
  using assms(1) unfolding al_def ft_def hfov_def vfov_def
  by (auto simp: patch_focus_view_def Let_def and_then_eq_Inr int32_of_double_eq_Inr
        add_int32_eq_Inr)

text \<open>
  Claim C3, as the code has it. For every multi-projection layer of a submission (the
  \<open>i\<close>-th layer, \<open>proj\<close>) and every focus view index \<open>2 \<le> k < viewCount\<close> whose copied
  viewport is the 1x1 sentinel, submitted at the \<open>x\<close> and \<open>y\<close> of its reference view
  \<open>k mod 2\<close>: when the submission is forwarded the new layer list holds the patched
  copy \<open>proj'\<close> of the layer, and the viewport of its view \<open>k\<close> is: swap chain and array
  index of the reference view;
  \<open>x\<close> = \<open>reference.x\<close> + the truncation towards zero of
  \<open>((focusFov.left + refTangents.left) / horizontalFov) * reference.width\<close>, where
  \<open>horizontalFov = refTangents.right + refTangents.left\<close>;
  width = \<open>AlignTo 2\<close> of the truncation of
  \<open>(|focusFov.right - focusFov.left| / horizontalFov) * reference.width\<close>;
  \<open>y\<close> and height in the same way from
  \<open>(refTangents.top - focusFov.top) / verticalFov\<close> and
  \<open>|focusFov.top - focusFov.bottom| / verticalFov\<close>. The four products are finite
  doubles (\<open>ox\<close>, \<open>ow\<close>, \<open>oy\<close>, \<open>oh\<close>), each operation being a double operation.
  Nothing is said here of a sentinel submitted at another \<open>x\<close> or \<open>y\<close>.
\<close>

theorem sentinel_focus_view_patched:
  assumes "hooked_EndFrameWithLayers rt session submitInfo = Inr newSubmitInfo"
    and "int i < sint (layerCount submitInfo)"
    and "layers submitInfo ! i = LayerMultiProj proj"
    and "2 \<le> k" and "int k < sint (viewCount proj)"
    and "width (viewport (views proj ! k)) = 1" and "height (viewport (views proj ! k)) = 1"
    and "viewport_x (viewport (views proj ! k)) = viewport_x (viewport (views proj ! (k mod 2)))"
    and "viewport_y (viewport (views proj ! k)) = viewport_y (viewport (views proj ! (k mod 2)))"
  defines "referenceView \<equiv> views proj ! (k mod 2)"
  defines "refTangents \<equiv> original_GetAlignedView rt (projection referenceView)"
    and "focusFov \<equiv> GetFovTangents rt session (of_nat k)"
  defines "horizontalFov \<equiv> dadd (projectionRight refTangents) (projectionLeft refTangents)"
    and "verticalFov \<equiv> dadd (projectionTop refTangents) (projectionBottom refTangents)"
  shows "\<exists>proj' ox ow oy oh.
     patch_layer rt session proj = Inr proj' \<and>
     LayerMultiProj proj' \<in> set (layers newSubmitInfo) \<and>
     dmul (ddiv (dadd (left focusFov) (projectionLeft refTangents)) horizontalFov)
          (double_of_int32 (width (viewport referenceView))) = Finite ox \<and>
     dmul (ddiv (dabs (dsub (right focusFov) (left focusFov))) horizontalFov)
          (double_of_int32 (width (viewport referenceView))) = Finite ow \<and>
     dmul (ddiv (dsub (projectionTop refTangents) (top_tan focusFov)) verticalFov)
          (double_of_int32 (height (viewport referenceView))) = Finite oy \<and>
     dmul (ddiv (dabs (dsub (top_tan focusFov) (bottom focusFov))) verticalFov)
          (double_of_int32 (height (viewport referenceView))) = Finite oh \<and>
     viewport (views proj' ! k) =
       \<lparr>swapChain = swapChain (viewport referenceView),
        viewport_x = viewport_x (viewport referenceView) + word_of_int (trunc ox),
        viewport_y = viewport_y (viewport referenceView) + word_of_int (trunc oy),
        width = AlignTo 2 (word_of_int (trunc ow)),
        height = AlignTo 2 (word_of_int (trunc oh)),
        arrayIndex = arrayIndex (viewport referenceView)\<rparr>"
proof -
  from hooked_EndFrameWithLayers_result[OF assms(1)] assms(2,3)
  obtain proj' where p: "patch_layer rt session proj = Inr proj'"
    and m: "LayerMultiProj proj' \<in> set (layers newSubmitInfo)" by blast
  from patch_layer_result[OF p] assms(4-7)
  have "patch_focus_view rt session (of_nat k) (views proj ! k) (views proj ! (k mod 2))
          = Inr (views proj' ! k)" by auto
  from patch_focus_view_result[OF this] p m show ?thesis
    unfolding referenceView_def refTangents_def focusFov_def horizontalFov_def
      verticalFov_def assms(8,9) by blast
qed

text \<open>
  Claim C6, as the code has it. For every multi-projection layer of a submission that
  the patcher forwards and every focus view index \<open>2 \<le> k < viewCount\<close> whose submitted
  viewport is not exactly width 1 and height 1: \<open>k\<close> is below 4 (the copy of the views
  has four elements), the new layer list holds the copy \<open>proj'\<close> of the layer, and its
  view \<open>k\<close> is the submitted view: viewport (swap chain, array index, rectangle) and
  projection unchanged.
\<close>

theorem focus_view_not_sentinel_unmodified:
  assumes "hooked_EndFrameWithLayers rt session submitInfo = Inr newSubmitInfo"
    and "int i < sint (layerCount submitInfo)"
    and "layers submitInfo ! i = LayerMultiProj proj"
    and "2 \<le> k" and "int k < sint (viewCount proj)"
    and "\<not> (width (viewport (views proj ! k)) = 1 \<and> height (viewport (views proj ! k)) = 1)"
  shows "k < 4 \<and>
         (\<exists>proj'. patch_layer rt session proj = Inr proj' \<and>
            LayerMultiProj proj' \<in> set (layers newSubmitInfo) \<and>
            views proj' ! k = views proj ! k)"
proof -
  from hooked_EndFrameWithLayers_result[OF assms(1)] assms(2,3)
  obtain proj' where p: "patch_layer rt session proj = Inr proj'"
    and m: "LayerMultiProj proj' \<in> set (layers newSubmitInfo)" by blast
  from patch_layer_result[OF p] assms(4-6)
  have "views proj' ! k = views proj ! k" by auto
  moreover from patch_layer_result[OF p] assms(5) have "k < 4" by auto
  ultimately show ?thesis using p m by blast
qed

lemmas eval_simps = patch_layers.simps patch_focus_views.simps trace_views.simps
  hooked_EndFrameWithLayers_def patch_layer_def copy_views_def patch_focus_view_def
  read_at_def c_rem_def add_int32_def AlignTo_def and_then_Inr and_then_Inl
  GetFovTangents_def GetRenderingGaze_def USE_FOVEATED_GAZE_def USE_FOVEATED_TANGENTS_def
  dsub_def double_of_int32_def trunc_def round_double_simps inf_of_sign_def
  fixed_runtime_def spec_runtime_def aligned_view_def tangents_def view_at_def layer_of_def
  submission_def Let_def


section \<open>Scenarios of the frame submission\<close>

text \<open>
  Claim C1 (the code drops the layers that are not multi-projection layers). A
  submission of one layer of another type: the runtime is called with
  \<^verbatim>\<open>layerCount\<close> 1 and a pointer list that has no element.
\<close>

theorem other_layer_not_forwarded:
  "hooked_EndFrameWithLayers rt session \<lparr>frameNumber = n, layerCount = 1, layers = [LayerOther h]\<rparr>
     = Inr \<lparr>frameNumber = n, layerCount = 1, layers = []\<rparr>"
  by (simp add: eval_simps)

text \<open>
  With a layer of another type before a multi-projection layer, the copy of the second
  layer is the first pointer of the new list, and the list is one pointer short of
  \<^verbatim>\<open>layerCount\<close>.
\<close>

lemma other_layer_shifts_pointers:
  "hooked_EndFrameWithLayers rt session
     \<lparr>frameNumber = n, layerCount = 2,
      layers = [LayerOther h, LayerMultiProj (layer_of 2 [view_at 5 0 0 1000 1000, view_at 6 0 0 1000 1000])]\<rparr>
     = Inr \<lparr>frameNumber = n, layerCount = 2,
      layers = [LayerMultiProj (layer_of 2 [view_at 5 0 0 1000 1000, view_at 6 0 0 1000 1000,
                              view_at 5 0 0 1000 1000, view_at 6 0 0 1000 1000])]\<rparr>"
  by (simp add: eval_simps)

text \<open>
  Claim C2 (the deep copy reads \<^verbatim>\<open>proj->views[1]\<close> whatever \<^verbatim>\<open>viewCount\<close> is). A
  multi-projection layer with \<^verbatim>\<open>viewCount\<close> 1 and its one view: the copy reads the
  element after the end of the array, and no submission is forwarded.
\<close>

theorem viewCount_1_out_of_bounds:
  "hooked_EndFrameWithLayers rt session
     \<lparr>frameNumber = n, layerCount = 1,
      layers = [LayerMultiProj \<lparr>header = h, space = sp, viewCount = 1, views = [v]\<rparr>]\<rparr>
     = Inl OutOfBounds"
  by (simp add: eval_simps)

text \<open>
  \<^verbatim>\<open>viewCount\<close> 0: with no view the copy reads \<^verbatim>\<open>proj->views[0]\<close> outside the array;
  with two views behind the pointer it computes \<^verbatim>\<open>2 % 0\<close>. \<^verbatim>\<open>viewCount\<close> 5: the patch
  loop reaches \<^verbatim>\<open>views[4]\<close> of the four-element copy.
\<close>

lemma viewCount_0_out_of_bounds:
  "hooked_EndFrameWithLayers rt session
     \<lparr>frameNumber = n, layerCount = 1,
      layers = [LayerMultiProj \<lparr>header = h, space = sp, viewCount = 0, views = []\<rparr>]\<rparr>
     = Inl OutOfBounds"
  by (simp add: eval_simps)

lemma viewCount_0_divides_by_zero:
  "hooked_EndFrameWithLayers rt session
     \<lparr>frameNumber = n, layerCount = 1,
      layers = [LayerMultiProj \<lparr>header = h, space = sp, viewCount = 0, views = [v0, v1]\<rparr>]\<rparr>
     = Inl DivideByZero"
  by (simp add: eval_simps)

lemma viewCount_5_out_of_bounds:
  "hooked_EndFrameWithLayers rt session
     \<lparr>frameNumber = n, layerCount = 1,
      layers = [LayerMultiProj (layer_of 5 [view_at 5 0 0 1000 1000, view_at 6 0 0 1000 1000,
         view_at 5 0 0 500 500, view_at 6 0 0 500 500, view_at 6 0 0 500 500])]\<rparr>
     = Inl OutOfBounds"
  by (simp add: eval_simps)

text \<open>
  Claim C3 as stated, with \<open>round\<close>, fails: with the aligned tangents 1, 1, 1, 1, the
  focus tangents \<open>\<plusminus>0.5\<close> and the reference viewport \<open>{0, 0, 1003, 1003}\<close>, a sentinel
  submitted at \<open>(0, 0)\<close> gets the offset \<open>0.25 * 1003 = 250.75\<close>, which the conversion
  truncates: the patched \<open>x\<close> and \<open>y\<close> are 250, where \<open>reference.x + round 250.75\<close> is
  251. (The size 501.5 becomes 501, aligned to 502.) Every value is a binary
  fraction, so no operation rounds. The layer has three views: the fourth element of
  the copy is \<^verbatim>\<open>proj->views[3 % 3]\<close>.
\<close>

theorem sentinel_offset_truncates:
  "hooked_EndFrameWithLayers (spec_runtime (tangents (- 1 / 2) (1 / 2) (1 / 2) (- 1 / 2))) 0
     (submission [LayerMultiProj (layer_of 3
        [view_at 5 0 0 1003 1003, view_at 6 0 0 1003 1003, view_at 7 0 0 1 1])])
   = Inr \<lparr>frameNumber = 1, layerCount = 1, layers = [LayerMultiProj
       \<lparr>header = \<lparr>flags = 32\<rparr>, space = 0, viewCount = 3,
        views = [view_at 5 0 0 1003 1003, view_at 6 0 0 1003 1003,
          \<lparr>projection = [Finite (1 / 2), Finite (- 1 / 2), Finite (- 1 / 2), Finite (1 / 2)],
           viewport = \<lparr>swapChain = 5, viewport_x = 250, viewport_y = 250,
             width = 502, height = 502, arrayIndex = 0\<rparr>\<rparr>,
          view_at 5 0 0 1003 1003]\<rparr>]\<rparr> \<and>
   0 + round (((- 1 / 2 + 1) / (1 + 1)) * 1003 :: rat) = 251 \<and>
   0 + round (((1 - 1 / 2) / (1 + 1)) * 1003 :: rat) = 251"
  by (simp add: eval_simps round_def)

text \<open>
  The scenario of the specification: aligned tangents 1, 1, 1, 1, focus tangents of
  0.5 (the left and bottom ones negative, as the runtime's tangent query gives them),
  reference viewport \<open>{0, 0, 1000, 1000}\<close>, the sentinel submitted at the reference
  origin: the patched viewport is \<open>{250, 250, 500, 500}\<close>.
\<close>

theorem sentinel_focus_view_patched_witness:
  "\<exists>out proj'.
     hooked_EndFrameWithLayers (spec_runtime (tangents (- 1 / 2) (1 / 2) (1 / 2) (- 1 / 2))) 0
       (submission [LayerMultiProj (layer_of 4
          [view_at 5 0 0 1000 1000, view_at 6 0 0 1000 1000, view_at 7 0 0 1 1,
           view_at 8 0 0 1 1])]) = Inr out \<and>
     LayerMultiProj proj' \<in> set (layers out) \<and>
     viewport (views proj' ! 2) =
       \<lparr>swapChain = 5, viewport_x = 250, viewport_y = 250, width = 500, height = 500,
        arrayIndex = 0\<rparr>"
proof -
  let ?rt = "spec_runtime (tangents (- 1 / 2) (1 / 2) (1 / 2) (- 1 / 2))"
  let ?proj = "layer_of 4
          [view_at 5 0 0 1000 1000, view_at 6 0 0 1000 1000, view_at 7 0 0 1 1, view_at 8 0 0 1 1]"
  let ?sub = "submission [LayerMultiProj ?proj]"
  obtain out where h1: "hooked_EndFrameWithLayers ?rt 0 ?sub = Inr out"
    by (simp add: eval_simps)
  have h2: "int 0 < sint (layerCount ?sub)" by (simp add: submission_def)
  have h3: "layers ?sub ! 0 = LayerMultiProj ?proj" by (simp add: submission_def)
  have h4: "(2::nat) \<le> 2" by simp
  have h5: "int 2 < sint (viewCount ?proj)" by (simp add: layer_of_def)
  have h6: "width (viewport (views ?proj ! 2)) = 1" by (simp add: layer_of_def view_at_def)
  have h7: "height (viewport (views ?proj ! 2)) = 1" by (simp add: layer_of_def view_at_def)
  have h8: "viewport_x (viewport (views ?proj ! 2)) = viewport_x (viewport (views ?proj ! (2 mod 2)))"
    by (simp add: layer_of_def view_at_def)
  have h9: "viewport_y (viewport (views ?proj ! 2)) = viewport_y (viewport (views ?proj ! (2 mod 2)))"
    by (simp add: layer_of_def view_at_def)
  from sentinel_focus_view_patched [OF h1 h2 h3 h4 h5 h6 h7 h8 h9]
  obtain proj' ox ow oy oh where
    m: "LayerMultiProj proj' \<in> set (layers out)" and
    ox: "dmul (ddiv (dadd (left (GetFovTangents ?rt 0 (of_nat 2)))
             (projectionLeft (original_GetAlignedView ?rt (projection (views ?proj ! (2 mod 2))))))
           (dadd (projectionRight (original_GetAlignedView ?rt (projection (views ?proj ! (2 mod 2)))))
                 (projectionLeft (original_GetAlignedView ?rt (projection (views ?proj ! (2 mod 2)))))))
          (double_of_int32 (width (viewport (views ?proj ! (2 mod 2))))) = Finite ox" and
    ow: "dmul (ddiv (dabs (dsub (right (GetFovTangents ?rt 0 (of_nat 2))) (left (GetFovTangents ?rt 0 (of_nat 2)))))
           (dadd (projectionRight (original_GetAlignedView ?rt (projection (views ?proj ! (2 mod 2)))))
                 (projectionLeft (original_GetAlignedView ?rt (projection (views ?proj ! (2 mod 2)))))))
          (double_of_int32 (width (viewport (views ?proj ! (2 mod 2))))) = Finite ow" and
    oy: "dmul (ddiv (dsub (projectionTop (original_GetAlignedView ?rt (projection (views ?proj ! (2 mod 2)))))
                          (top_tan (GetFovTangents ?rt 0 (of_nat 2))))
           (dadd (projectionTop (original_GetAlignedView ?rt (projection (views ?proj ! (2 mod 2)))))
                 (projectionBottom (original_GetAlignedView ?rt (projection (views ?proj ! (2 mod 2)))))))
          (double_of_int32 (height (viewport (views ?proj ! (2 mod 2))))) = Finite oy" and
    oh: "dmul (ddiv (dabs (dsub (top_tan (GetFovTangents ?rt 0 (of_nat 2))) (bottom (GetFovTangents ?rt 0 (of_nat 2)))))
           (dadd (projectionTop (original_GetAlignedView ?rt (projection (views ?proj ! (2 mod 2)))))
                 (projectionBottom (original_GetAlignedView ?rt (projection (views ?proj ! (2 mod 2)))))))
          (double_of_int32 (height (viewport (views ?proj ! (2 mod 2))))) = Finite oh" and
    vp: "viewport (views proj' ! 2) =
       \<lparr>swapChain = swapChain (viewport (views ?proj ! (2 mod 2))),
        viewport_x = viewport_x (viewport (views ?proj ! (2 mod 2))) + word_of_int (trunc ox),
        viewport_y = viewport_y (viewport (views ?proj ! (2 mod 2))) + word_of_int (trunc oy),
        width = AlignTo 2 (word_of_int (trunc ow)),
        height = AlignTo 2 (word_of_int (trunc oh)),
        arrayIndex = arrayIndex (viewport (views ?proj ! (2 mod 2)))\<rparr>"
    by blast
  from ox have "ox = 250" by (simp add: eval_simps)
  moreover from ow have "ow = 500" by (simp add: eval_simps)
  moreover from oy have "oy = 250" by (simp add: eval_simps)
  moreover from oh have "oh = 500" by (simp add: eval_simps)
  ultimately have "viewport (views proj' ! 2) =
       \<lparr>swapChain = 5, viewport_x = 250, viewport_y = 250, width = 500, height = 500,
        arrayIndex = 0\<rparr>"
    using vp by (simp add: eval_simps)
  with h1 m show ?thesis by blast
qed

text \<open>
  Claim C6 as stated, for every index \<open>k \<ge> 2\<close>, fails at \<open>k = 4\<close>: a layer of five views,
  the focus views 2, 3 and 4 placed by the caller (none is a sentinel). The copy has
  four elements, the patch loop indexes \<^verbatim>\<open>views[4]\<close> of it, and no submission is
  forwarded: view 4 has no copy.
\<close>

theorem focus_view_4_has_no_copy:
  "hooked_EndFrameWithLayers (spec_runtime (tangents (- 1 / 2) (1 / 2) (1 / 2) (- 1 / 2))) 0
     (submission [LayerMultiProj (layer_of 5
        [view_at 5 0 0 1000 1000, view_at 6 0 0 1000 1000, view_at 5 250 250 500 500,
         view_at 6 250 250 500 500, view_at 9 10 20 300 200])])
   = Inl OutOfBounds"
  by (simp add: eval_simps)

text \<open>
  A layer whose view 2 is a sentinel and whose view 3 was placed by the caller at
  \<open>{10, 20, 300, 200}\<close>: view 3 of the forwarded copy is the submitted one.
\<close>

theorem focus_view_not_sentinel_unmodified_witness:
  "\<exists>out proj'.
     hooked_EndFrameWithLayers (spec_runtime (tangents (- 1 / 2) (1 / 2) (1 / 2) (- 1 / 2))) 0
       (submission [LayerMultiProj (layer_of 4
          [view_at 5 0 0 1000 1000, view_at 6 0 0 1000 1000, view_at 7 0 0 1 1,
           view_at 8 10 20 300 200])]) = Inr out \<and>
     LayerMultiProj proj' \<in> set (layers out) \<and>
     views proj' ! 3 = view_at 8 10 20 300 200"
proof -
  let ?rt = "spec_runtime (tangents (- 1 / 2) (1 / 2) (1 / 2) (- 1 / 2))"
  let ?proj = "layer_of 4
       [view_at 5 0 0 1000 1000, view_at 6 0 0 1000 1000, view_at 7 0 0 1 1, view_at 8 10 20 300 200]"
  let ?sub = "submission [LayerMultiProj ?proj]"
  obtain out where h1: "hooked_EndFrameWithLayers ?rt 0 ?sub = Inr out"
    by (simp add: eval_simps)
  have h2: "int 0 < sint (layerCount ?sub)" by (simp add: submission_def)
  have h3: "layers ?sub ! 0 = LayerMultiProj ?proj" by (simp add: submission_def)
  have h4: "(2::nat) \<le> 3" by simp
  have h5: "int 3 < sint (viewCount ?proj)" by (simp add: layer_of_def)
  have h6: "\<not> (width (viewport (views ?proj ! 3)) = 1 \<and> height (viewport (views ?proj ! 3)) = 1)"
    by (simp add: layer_of_def view_at_def)
  from focus_view_not_sentinel_unmodified [OF h1 h2 h3 h4 h5 h6]
  obtain proj' where "LayerMultiProj proj' \<in> set (layers out)"
    and "views proj' ! 3 = views ?proj ! 3" by blast
  with h1 show ?thesis by (auto simp: layer_of_def)
qed

text \<open>
  Claim C5 (the patched rectangle can leave the reference viewport). The focus
  tangents equal to the reference tangents and a reference viewport of odd size
  \<open>{0, 0, 999, 999}\<close>: the patched viewport is \<open>{0, 0, 1000, 1000}\<close>, one pixel wider
  and higher than the reference, because the size is aligned up after the scaling.
\<close>

theorem patched_viewport_exceeds_reference:
  "hooked_EndFrameWithLayers (spec_runtime (tangents (- 1) 1 1 (- 1))) 0
     (submission [LayerMultiProj (layer_of 4
        [view_at 5 0 0 999 999, view_at 6 0 0 999 999, view_at 7 0 0 1 1, view_at 8 0 0 1 1])])
   = Inr \<lparr>frameNumber = 1, layerCount = 1, layers = [LayerMultiProj
       \<lparr>header = \<lparr>flags = 32\<rparr>, space = 0, viewCount = 4,
        views = [view_at 5 0 0 999 999, view_at 6 0 0 999 999,
          \<lparr>projection = [Finite 1, Finite (- 1), Finite (- 1), Finite 1],
           viewport = \<lparr>swapChain = 5, viewport_x = 0, viewport_y = 0,
             width = 1000, height = 1000, arrayIndex = 0\<rparr>\<rparr>,
          \<lparr>projection = [Finite 1, Finite (- 1), Finite (- 1), Finite 1],
           viewport = \<lparr>swapChain = 6, viewport_x = 0, viewport_y = 0,
             width = 1000, height = 1000, arrayIndex = 0\<rparr>\<rparr>]\<rparr>]\<rparr> \<and>
   \<not> sint (0 :: 32 word) + sint (1000 :: 32 word) \<le> sint (0 :: 32 word) + sint (999 :: 32 word)"
  by (simp add: eval_simps)

text \<open>
  The offset is added to the \<open>x\<close> and \<open>y\<close> that the focus view was submitted with, not
  to those of the reference view: a sentinel submitted at \<open>x = 600\<close> ends at
  \<open>x = 850\<close>, and \<open>850 + 500\<close> is beyond the reference viewport \<open>{0, 0, 1000, 1000}\<close>.
\<close>

lemma patched_viewport_keeps_submitted_origin:
  "hooked_EndFrameWithLayers (spec_runtime (tangents (- 1 / 2) (1 / 2) (1 / 2) (- 1 / 2))) 0
     (submission [LayerMultiProj (layer_of 4
        [view_at 5 0 0 1000 1000, view_at 6 0 0 1000 1000, view_at 7 600 0 1 1, view_at 8 600 0 1 1])])
   = Inr \<lparr>frameNumber = 1, layerCount = 1, layers = [LayerMultiProj
       \<lparr>header = \<lparr>flags = 32\<rparr>, space = 0, viewCount = 4,
        views = [view_at 5 0 0 1000 1000, view_at 6 0 0 1000 1000,
          \<lparr>projection = [Finite (1 / 2), Finite (- 1 / 2), Finite (- 1 / 2), Finite (1 / 2)],
           viewport = \<lparr>swapChain = 5, viewport_x = 850, viewport_y = 250,
             width = 500, height = 500, arrayIndex = 0\<rparr>\<rparr>,
          \<lparr>projection = [Finite (1 / 2), Finite (- 1 / 2), Finite (- 1 / 2), Finite (1 / 2)],
           viewport = \<lparr>swapChain = 6, viewport_x = 850, viewport_y = 250,
             width = 500, height = 500, arrayIndex = 0\<rparr>\<rparr>]\<rparr>]\<rparr>"
  by (simp add: eval_simps)


section \<open>The stereo texture size\<close>

lemma trunc_of_int: "trunc (of_int n) = n"
  by (simp add: trunc_def)

lemma int32_of_double_of_int:
  assumes "- (2 ^ 31) \<le> n" and "n < 2 ^ 31"
  shows "int32_of_double (round_double (of_int n)) = Inr (word_of_int n)"
proof -
  have "\<bar>n\<bar> < 2 ^ 53" using assms by simp
  from round_double_exact [OF this, of 0]
  have "round_double (of_int n) = Finite (of_int n)" by simp
  then show ?thesis using assms by (simp add: trunc_of_int)
qed

lemma int32_round_trip:
  "int32_of_double (dmul (double_of_int32 w) (Finite 1)) = Inr w"
proof -
  have "- (2 ^ 31) \<le> sint w" using sint_ge [of w] by simp
  moreover have "sint w < 2 ^ 31" using sint_lt [of w] by simp
  ultimately have "int32_of_double (round_double (of_int (sint w))) = Inr (word_of_int (sint w))"
    by (rule int32_of_double_of_int)
  then show ?thesis by (simp add: double_of_int32_def)
qed

lemma add_int32_2: "viewIndex = 0 \<or> viewIndex = 1 \<Longrightarrow> add_int32 2 viewIndex = Inr (2 + viewIndex)"
  by (auto simp: add_int32_def)

text \<open>
  Claim C4, as the code has it. For a stereo texture-size query, with \<open>base\<close> the size
  that the runtime gives for the dynamic-foveation kind at the view index
  \<open>2 + viewIndex\<close>, \<open>horizontalMultiplier = |full.right - full.left| / |focus.right - focus.left|\<close>
  and \<open>verticalMultiplier\<close> likewise from top and bottom (double operations on the
  tangents resolved for \<open>viewIndex\<close> and \<open>2 + viewIndex\<close>): whenever the query returns,
  the products \<open>base * multiplier\<close> are finite doubles \<open>pw\<close>, \<open>ph\<close> and the returned size
  is \<open>AlignTo 2\<close> of their truncations towards zero. And for \<open>viewIndex\<close> 0 or 1, when
  the full tangents equal the focus tangents and both focus extents are finite and
  not zero, the query returns exactly the aligned base size.
\<close>

theorem stereo_texture_size:
  fixes rt session viewIndex wh
  defines "base \<equiv> original_GetTextureSize rt session varjo_TextureSize_Type_DynamicFoveation
                     (2 + viewIndex) wh"
    and "full \<equiv> GetFovTangents rt session viewIndex"
    and "focus \<equiv> GetFovTangents rt session (2 + viewIndex)"
  defines "horizontalMultiplier \<equiv>
             ddiv (dabs (dsub (right full) (left full))) (dabs (dsub (right focus) (left focus)))"
    and "verticalMultiplier \<equiv>
             ddiv (dabs (dsub (top_tan full) (bottom full)))
                  (dabs (dsub (top_tan focus) (bottom focus)))"
  shows "(hooked_GetTextureSize rt session varjo_TextureSize_Type_Stereo viewIndex wh = Inr (w', h')
          \<longrightarrow> (\<exists>pw ph.
                 dmul (double_of_int32 (fst base)) horizontalMultiplier = Finite pw \<and>
                 dmul (double_of_int32 (snd base)) verticalMultiplier = Finite ph \<and>
                 w' = AlignTo 2 (word_of_int (trunc pw)) \<and>
                 h' = AlignTo 2 (word_of_int (trunc ph)))) \<and>
         ((viewIndex = 0 \<or> viewIndex = 1) \<and> full = focus \<and>
          dabs (dsub (right focus) (left focus)) = Finite eh \<and> eh \<noteq> 0 \<and>
          dabs (dsub (top_tan focus) (bottom focus)) = Finite ev \<and> ev \<noteq> 0
          \<longrightarrow> hooked_GetTextureSize rt session varjo_TextureSize_Type_Stereo viewIndex wh
                = Inr (AlignTo 2 (fst base), AlignTo 2 (snd base)))"
proof (intro conjI impI)
  assume "hooked_GetTextureSize rt session varjo_TextureSize_Type_Stereo viewIndex wh = Inr (w', h')"
  then show "\<exists>pw ph.
                 dmul (double_of_int32 (fst base)) horizontalMultiplier = Finite pw \<and>
                 dmul (double_of_int32 (snd base)) verticalMultiplier = Finite ph \<and>
                 w' = AlignTo 2 (word_of_int (trunc pw)) \<and>
                 h' = AlignTo 2 (word_of_int (trunc ph))"
    unfolding base_def full_def focus_def horizontalMultiplier_def verticalMultiplier_def
    by (auto simp: hooked_GetTextureSize_def USE_FOVEATED_TANGENTS_def Let_def and_then_eq_Inr
          add_int32_eq_Inr int32_of_double_eq_Inr split: prod.splits)
next
  assume a: "(viewIndex = 0 \<or> viewIndex = 1) \<and> full = focus \<and>
          dabs (dsub (right focus) (left focus)) = Finite eh \<and> eh \<noteq> 0 \<and>
          dabs (dsub (top_tan focus) (bottom focus)) = Finite ev \<and> ev \<noteq> 0"
  then have hm: "horizontalMultiplier = Finite 1" and vm: "verticalMultiplier = Finite 1"
    by (simp_all add: horizontalMultiplier_def verticalMultiplier_def round_double_1)
  from a have ai: "add_int32 2 viewIndex = Inr (2 + viewIndex)" by (simp add: add_int32_2)
  obtain bw bh where b: "base = (bw, bh)" by (cases base)
  have "hooked_GetTextureSize rt session varjo_TextureSize_Type_Stereo viewIndex wh =
     and_then (int32_of_double (dmul (double_of_int32 bw) horizontalMultiplier)) (\<lambda>tw.
     and_then (int32_of_double (dmul (double_of_int32 bh) verticalMultiplier)) (\<lambda>th.
       Inr (AlignTo 2 tw, AlignTo 2 th)))"
    using b unfolding base_def horizontalMultiplier_def verticalMultiplier_def full_def focus_def
    by (simp add: hooked_GetTextureSize_def USE_FOVEATED_TANGENTS_def Let_def ai and_then_Inr)
  then show "hooked_GetTextureSize rt session varjo_TextureSize_Type_Stereo viewIndex wh
                = Inr (AlignTo 2 (fst base), AlignTo 2 (snd base))"
    by (simp add: hm vm int32_round_trip and_then_Inr b)
qed

text \<open>
  Claim C4 as stated, with \<open>round\<close>, fails: base size 1001, full tangents \<open>\<plusminus>1.375\<close> and
  focus tangents \<open>\<plusminus>0.5\<close> give the multiplier 2.75 and the product 2752.75, which the
  conversion truncates to 2752 (aligned: 2752), while rounding gives 2753 (aligned:
  2754). Every value is a binary fraction, so no operation rounds.
\<close>

theorem stereo_texture_size_truncates:
  "hooked_GetTextureSize
     (fixed_runtime (aligned_view 1 1 1 1) (tangents (- 11 / 8) (11 / 8) (11 / 8) (- 11 / 8))
        (tangents (- 1 / 2) (1 / 2) (1 / 2) (- 1 / 2)) (1001, 1001))
     0 varjo_TextureSize_Type_Stereo 0 (0, 0) = Inr (2752, 2752) \<and>
   AlignTo 2 (word_of_int (round (1001 * ((11 / 8 - - 11 / 8) / (1 / 2 - - 1 / 2)) :: rat))) = 2754"
  by (simp add: hooked_GetTextureSize_def eval_simps round_def)

text \<open>
  Equal tangents \<open>\<plusminus>0.5\<close> and the base size 1001 x 801: the result is 1002 x 802. And
  for the size 2752 x 2752 that the query above returns, the products are 2752.75.
\<close>

theorem stereo_texture_size_witness:
  "hooked_GetTextureSize
     (fixed_runtime (aligned_view 1 1 1 1) (tangents (- 1 / 2) (1 / 2) (1 / 2) (- 1 / 2))
        (tangents (- 1 / 2) (1 / 2) (1 / 2) (- 1 / 2)) (1001, 801))
     0 varjo_TextureSize_Type_Stereo 0 (0, 0) = Inr (1002, 802) \<and>
   (\<exists>pw ph. dmul (Finite 1001) (Finite (11 / 4)) = Finite pw \<and>
            dmul (Finite 1001) (Finite (11 / 4)) = Finite ph \<and>
            (2752 :: 32 word) = AlignTo 2 (word_of_int (trunc pw)) \<and>
            (2752 :: 32 word) = AlignTo 2 (word_of_int (trunc ph)))"
proof -
  let ?T = "tangents (- 1 / 2) (1 / 2) (1 / 2) (- 1 / 2)"
  let ?rt = "fixed_runtime (aligned_view 1 1 1 1) ?T ?T (1001, 801)"
  have h: "((0 :: 32 word) = 0 \<or> (0 :: 32 word) = 1) \<and>
        GetFovTangents ?rt 0 0 = GetFovTangents ?rt 0 (2 + 0) \<and>
        dabs (dsub (right (GetFovTangents ?rt 0 (2 + 0))) (left (GetFovTangents ?rt 0 (2 + 0))))
          = Finite 1 \<and> (1 :: rat) \<noteq> 0 \<and>
        dabs (dsub (top_tan (GetFovTangents ?rt 0 (2 + 0))) (bottom (GetFovTangents ?rt 0 (2 + 0))))
          = Finite 1 \<and> (1 :: rat) \<noteq> 0"
    by (simp add: eval_simps)
  from stereo_texture_size [of ?rt 0 0 "(0, 0)" 0 0 1 1] h
  have "hooked_GetTextureSize ?rt 0 varjo_TextureSize_Type_Stereo 0 (0, 0) =
      Inr (AlignTo 2 (fst (original_GetTextureSize ?rt 0 varjo_TextureSize_Type_DynamicFoveation (2 + 0) (0, 0))),
           AlignTo 2 (snd (original_GetTextureSize ?rt 0 varjo_TextureSize_Type_DynamicFoveation (2 + 0) (0, 0))))"
    by blast
  then have one: "hooked_GetTextureSize ?rt 0 varjo_TextureSize_Type_Stereo 0 (0, 0) = Inr (1002, 802)"
    by (simp add: fixed_runtime_def AlignTo_def)
  let ?rt2 = "fixed_runtime (aligned_view 1 1 1 1) (tangents (- 11 / 8) (11 / 8) (11 / 8) (- 11 / 8))
        ?T (1001, 1001)"
  have r: "hooked_GetTextureSize ?rt2 0 varjo_TextureSize_Type_Stereo 0 (0, 0) = Inr (2752, 2752)"
    by (simp add: hooked_GetTextureSize_def eval_simps)
  from stereo_texture_size [of ?rt2 0 0 "(0, 0)" 2752 2752] r
  have two: "\<exists>pw ph. dmul (Finite 1001) (Finite (11 / 4)) = Finite pw \<and>
            dmul (Finite 1001) (Finite (11 / 4)) = Finite ph \<and>
            (2752 :: 32 word) = AlignTo 2 (word_of_int (trunc pw)) \<and>
            (2752 :: 32 word) = AlignTo 2 (word_of_int (trunc ph))"
    by (simp add: eval_simps)
  from one two show ?thesis by blast
qed


lemma ddiv_zero_not_finite: "ddiv x (Finite 0) \<noteq> Finite a"
  by (cases x) (auto simp: inf_of_sign_def)

lemma dmul_not_finite: "(\<forall>a. y \<noteq> Finite a) \<Longrightarrow> dmul x y \<noteq> Finite b"
  by (cases x; cases y) (auto simp: inf_of_sign_def)

lemma int32_of_double_not_finite:
  "(\<forall>a. d \<noteq> Finite a) \<Longrightarrow> int32_of_double d = Inl UndefinedConversion"
  by (cases d) auto

lemma int32_of_double_Inl: "int32_of_double d = Inl e \<Longrightarrow> e = UndefinedConversion"
  by (cases d) (auto split: if_splits)

text \<open>
  Claim C8, as the code has it. The code has no clamp and no fallback. For a stereo
  texture-size query with \<open>viewIndex\<close> 0 or 1 whose focus extent is zero in one
  direction (\<open>|focus.right - focus.left|\<close> or \<open>|focus.top - focus.bottom|\<close> is 0), the
  multiplier of that direction is an infinity or a NaN, so is its product with the
  base dimension, and the conversion of that product to \<^verbatim>\<open>int32_t\<close> is undefined: no
  size is returned, in particular not the one of the runtime.
\<close>

theorem zero_focus_extent_undefined:
  fixes rt session viewIndex wh
  defines "focus \<equiv> GetFovTangents rt session (2 + viewIndex)"
  assumes "viewIndex = 0 \<or> viewIndex = 1"
    and "dabs (dsub (right focus) (left focus)) = Finite 0 \<or>
         dabs (dsub (top_tan focus) (bottom focus)) = Finite 0"
  shows "hooked_GetTextureSize rt session varjo_TextureSize_Type_Stereo viewIndex wh
           = Inl UndefinedConversion"
proof -
  from assms(2) have ai: "add_int32 2 viewIndex = Inr (2 + viewIndex)" by (rule add_int32_2)
  let ?full = "GetFovTangents rt session viewIndex"
  let ?hm = "ddiv (dabs (dsub (right ?full) (left ?full))) (dabs (dsub (right focus) (left focus)))"
  let ?vm = "ddiv (dabs (dsub (top_tan ?full) (bottom ?full)))
                  (dabs (dsub (top_tan focus) (bottom focus)))"
  obtain bw bh where b: "original_GetTextureSize rt session varjo_TextureSize_Type_DynamicFoveation
                     (2 + viewIndex) wh = (bw, bh)" by (cases "original_GetTextureSize rt session varjo_TextureSize_Type_DynamicFoveation
                     (2 + viewIndex) wh")
  let ?cw = "int32_of_double (dmul (double_of_int32 bw) ?hm)"
  let ?ch = "int32_of_double (dmul (double_of_int32 bh) ?vm)"
  have eq: "hooked_GetTextureSize rt session varjo_TextureSize_Type_Stereo viewIndex wh =
     and_then ?cw (\<lambda>tw. and_then ?ch (\<lambda>th. Inr (AlignTo 2 tw, AlignTo 2 th)))"
    using b unfolding focus_def
    by (simp add: hooked_GetTextureSize_def USE_FOVEATED_TANGENTS_def Let_def ai and_then_Inr)
  from assms(3) have "?cw = Inl UndefinedConversion \<or> ?ch = Inl UndefinedConversion"
  proof
    assume "dabs (dsub (right focus) (left focus)) = Finite 0"
    then have "\<forall>a. ?hm \<noteq> Finite a" by (simp add: ddiv_zero_not_finite)
    then have "\<forall>a. dmul (double_of_int32 bw) ?hm \<noteq> Finite a" by (simp add: dmul_not_finite)
    then show ?thesis by (simp add: int32_of_double_not_finite)
  next
    assume "dabs (dsub (top_tan focus) (bottom focus)) = Finite 0"
    then have "\<forall>a. ?vm \<noteq> Finite a" by (simp add: ddiv_zero_not_finite)
    then have "\<forall>a. dmul (double_of_int32 bh) ?vm \<noteq> Finite a" by (simp add: dmul_not_finite)
    then show ?thesis by (simp add: int32_of_double_not_finite)
  qed
  then show ?thesis
  proof
    assume "?cw = Inl UndefinedConversion"
    then show ?thesis by (simp add: eq and_then_Inl)
  next
    assume h: "?ch = Inl UndefinedConversion"
    show ?thesis
    proof (cases ?cw)
      case (Inl e)
      then show ?thesis using int32_of_double_Inl [OF Inl] by (simp add: eq and_then_Inl)
    next
      case (Inr tw)
      then show ?thesis using h by (simp add: eq and_then_Inl and_then_Inr)
    qed
  qed
qed

text \<open>
  Claim C8 as stated fails: with the focus tangents 0.5, 0.5, 0.5, 0.5 (right equal to
  left, top equal to bottom) and the runtime's size 1000 x 1000, the query does not
  return 1000 x 1000; both multipliers are \<open>2 / 0\<close>.
\<close>

theorem zero_focus_extent_no_fallback:
  "hooked_GetTextureSize
     (fixed_runtime (aligned_view 1 1 1 1) (tangents (- 1) 1 1 (- 1))
        (tangents (1 / 2) (1 / 2) (1 / 2) (1 / 2)) (1000, 1000))
     0 varjo_TextureSize_Type_Stereo 0 (1000, 1000) = Inl UndefinedConversion"
  by (simp add: hooked_GetTextureSize_def eval_simps)

text \<open>A focus extent that is zero horizontally only.\<close>

theorem zero_focus_extent_undefined_witness:
  "((0 :: 32 word) = 0 \<or> (0 :: 32 word) = 1) \<and>
   dabs (dsub (right (tangents 0 0 (1 / 2) (- 1 / 2))) (left (tangents 0 0 (1 / 2) (- 1 / 2))))
     = Finite 0 \<and>
   hooked_GetTextureSize
     (fixed_runtime (aligned_view 1 1 1 1) (tangents (- 1) 1 1 (- 1))
        (tangents 0 0 (1 / 2) (- 1 / 2)) (1000, 1000))
     0 varjo_TextureSize_Type_Stereo 0 (0, 0) = Inl UndefinedConversion"
proof -
  let ?rt = "fixed_runtime (aligned_view 1 1 1 1) (tangents (- 1) 1 1 (- 1))
        (tangents 0 0 (1 / 2) (- 1 / 2)) (1000, 1000)"
  have h1: "(0 :: 32 word) = 0 \<or> (0 :: 32 word) = 1" by simp
  have h2: "dabs (dsub (right (GetFovTangents ?rt 0 (2 + 0))) (left (GetFovTangents ?rt 0 (2 + 0))))
              = Finite 0 \<or>
            dabs (dsub (top_tan (GetFovTangents ?rt 0 (2 + 0))) (bottom (GetFovTangents ?rt 0 (2 + 0))))
              = Finite 0"
    by (simp add: eval_simps)
  from zero_focus_extent_undefined [OF h1 h2, of "(0, 0)"] show ?thesis
    by (simp add: eval_simps)
qed

end
